theory Spec2Isabelle
  imports Complex_Main "HOL-Library.Char_ord" "HOL-Library.List_Lexorder"
    "HOL-Library.Product_Lexorder"
begin

section \<open>Values, exceptions and the outside world\<close>

text \<open>
  Every dictionary and list that \<^verbatim>\<open>Genosma.py\<close> handles is a JSON value: it comes out of
  \<^verbatim>\<open>json.loads\<close>/\<^verbatim>\<open>json.load\<close> or is built from strings, lists and dictionaries of such
  values. An object keeps its keys in insertion order, as a Python \<^verbatim>\<open>dict\<close> does.
  A string is kept as the UTF-8 bytes of Python's \<^verbatim>\<open>str\<close>: two strings are equal, or in
  order, as bytes exactly when they are as Python strings, and a character is a lead byte
  with the continuation bytes that follow it.
\<close>

datatype json =
    JNull
  | JBool bool
  | JNum rat
  | JStr string
  | JArr "json list"
  | JObj "(string \<times> json) list"

text \<open>The exceptions that can leave a function of the program.\<close>

datatype exn =
    KeyError
  | TypeError
  | AttributeError
  | EOFError
  | LoadError
  | CollaboratorError

text \<open>
  What \<^verbatim>\<open>subprocess.run(cmd, shell=True, capture_output=True, text=True, check=True,
  timeout=300)\<close> can do: return with exit status 0 and the two captured streams, raise
  \<^verbatim>\<open>CalledProcessError\<close> (whose \<^verbatim>\<open>str\<close> is carried here), raise \<^verbatim>\<open>TimeoutExpired\<close>, or raise
  anything else.
\<close>

datatype proc =
    Completed string string
  | CalledProcessError string
  | TimeoutExpired
  | OtherFailure

text \<open>
  A file of the program is absent, holds text that \<^verbatim>\<open>json.load\<close> rejects with
  \<^verbatim>\<open>JSONDecodeError\<close> (\<open>Garbled\<close>), makes \<^verbatim>\<open>json.load\<close> raise another exception, as bytes that
  do not decode or a nesting that is too deep do (\<open>Unreadable\<close>, the exception being
  \<open>LoadError\<close> here), or holds the text of a JSON value. \<^verbatim>\<open>json.dump v\<close> followed by
  \<^verbatim>\<open>json.load\<close> gives \<^verbatim>\<open>v\<close> back, so a file is kept as the value it holds.
\<close>

datatype disk_file = Absent | Garbled | Unreadable | Holds json

text \<open>
  The trace records, in order, what the program does to the outside: lines printed,
  collaborator calls, file writes, and the entry into each agent method.
\<close>

datatype event =
    Print string
  | Progress nat nat json
  | Summary json
  | Invoke
  | Search
  | Run json
  | Ask
  | Stored string json
  | Logged string json
  | Analyze string
  | CreatePlan string json "json option"
  | AnalyzePlan json
  | RequestPermission json json
  | Execute json string

text \<open>
  The world holds the collaborators as the answers they are still going to give
  (\<^verbatim>\<open>llm.invoke(prompt).content\<close>, the lines typed on standard input, the outcomes of the
  shell commands), the two files and the trace. A collaborator with no answer left raises.
  The text of a prompt only reaches the LLM, whose replies are arbitrary here, so prompts
  are not built.
\<close>

record world =
  llm :: "string list"
  stdin :: "string list"
  shell :: "proc list"
  kb_file :: disk_file
  log_file :: disk_file
  trace :: "event list"

text \<open>
  The two library functions the program's results depend on:
  \<^verbatim>\<open>difflib.SequenceMatcher(None, a, b).ratio()\<close> and \<^verbatim>\<open>json.loads\<close> (\<open>None\<close> when it raises).
\<close>

record lib =
  ratio :: "string \<Rightarrow> string \<Rightarrow> rat"
  json_loads :: "string \<Rightarrow> json option"

type_synonym 'a io = "world \<Rightarrow> (exn + 'a) \<times> world"

definition ret :: "'a \<Rightarrow> 'a io" where
  "ret x w = (Inr x, w)"

definition raise :: "exn \<Rightarrow> 'a io" where
  "raise e w = (Inl e, w)"

definition bind :: "'a io \<Rightarrow> ('a \<Rightarrow> 'b io) \<Rightarrow> 'b io" where
  "bind m f w = (case m w of (Inl e, w') \<Rightarrow> (Inl e, w') | (Inr x, w') \<Rightarrow> f x w')"

definition lift :: "exn + 'a \<Rightarrow> 'a io" where
  "lift r w = (r, w)"

definition emit :: "event \<Rightarrow> unit io" where
  "emit e w = (Inr (), w\<lparr>trace := trace w @ [e]\<rparr>)"

section \<open>Python operations on JSON values\<close>

text \<open>Truth value of a JSON value in a Python condition.\<close>

fun py_truthy :: "json \<Rightarrow> bool" where
  "py_truthy JNull = False"
| "py_truthy (JBool b) = b"
| "py_truthy (JNum r) = (r \<noteq> 0)"
| "py_truthy (JStr s) = (s \<noteq> [])"
| "py_truthy (JArr xs) = (xs \<noteq> [])"
| "py_truthy (JObj kvs) = (kvs \<noteq> [])"

text \<open>\<^verbatim>\<open>d.get(key, default)\<close>: only a dictionary has the method.\<close>

fun py_get :: "json \<Rightarrow> string \<Rightarrow> json \<Rightarrow> exn + json" where
  "py_get (JObj kvs) k d = Inr (case map_of kvs k of None \<Rightarrow> d | Some v \<Rightarrow> v)"
| "py_get _ k d = Inl AttributeError"

text \<open>\<^verbatim>\<open>d[key]\<close> with a string key.\<close>

fun py_index :: "json \<Rightarrow> string \<Rightarrow> exn + json" where
  "py_index (JObj kvs) k = (case map_of kvs k of None \<Rightarrow> Inl KeyError | Some v \<Rightarrow> Inr v)"
| "py_index _ k = Inl TypeError"

text \<open>The characters of a string: each lead byte with its continuation bytes.\<close>

definition continuation :: "char \<Rightarrow> bool" where
  "continuation c = (let n = (of_char c :: nat) in 128 \<le> n \<and> n < 192)"

function utf8_chars :: "string \<Rightarrow> string list" where
  "utf8_chars [] = []"
| "utf8_chars (c # cs) = (c # takeWhile continuation cs) # utf8_chars (dropWhile continuation cs)"
  by pat_completeness auto
termination
  by (relation "measure length") (auto simp: length_dropWhile_le less_Suc_eq_le)

text \<open>\<^verbatim>\<open>for x in v\<close>: a list gives its elements, a string its characters, a dictionary its keys.\<close>

fun py_iter :: "json \<Rightarrow> exn + json list" where
  "py_iter (JArr xs) = Inr xs"
| "py_iter (JStr s) = Inr (map JStr (utf8_chars s))"
| "py_iter (JObj kvs) = Inr (map (\<lambda>kv. JStr (fst kv)) kvs)"
| "py_iter _ = Inl TypeError"

text \<open>
  \<^verbatim>\<open>v[n:]\<close>. A dictionary cannot be sliced (\<^verbatim>\<open>TypeError\<close> up to Python 3.11).
\<close>

fun py_slice_from :: "json \<Rightarrow> nat \<Rightarrow> exn + json" where
  "py_slice_from (JArr xs) n = Inr (JArr (drop n xs))"
| "py_slice_from (JStr s) n = Inr (JStr (concat (drop n (utf8_chars s))))"
| "py_slice_from _ n = Inl TypeError"

text \<open>
  \<^verbatim>\<open>str.strip()\<close> removes from both ends the characters that \<^verbatim>\<open>str.isspace\<close> accepts:
  U+0009 to U+000D, U+001C to U+0020, U+0085, U+00A0, U+1680, U+2000 to U+200A, U+2028,
  U+2029, U+202F, U+205F and U+3000, listed here by their UTF-8 bytes.
\<close>

definition whitespace :: "string list" where
  "whitespace =
     [[CHR 0x09], [CHR 0x0A], [CHR 0x0B], [CHR 0x0C], [CHR 0x0D],
      [CHR 0x1C], [CHR 0x1D], [CHR 0x1E], [CHR 0x1F], [CHR 0x20],
      [CHR 0xC2, CHR 0x85], [CHR 0xC2, CHR 0xA0], [CHR 0xE1, CHR 0x9A, CHR 0x80],
      [CHR 0xE2, CHR 0x80, CHR 0x80], [CHR 0xE2, CHR 0x80, CHR 0x81],
      [CHR 0xE2, CHR 0x80, CHR 0x82], [CHR 0xE2, CHR 0x80, CHR 0x83],
      [CHR 0xE2, CHR 0x80, CHR 0x84], [CHR 0xE2, CHR 0x80, CHR 0x85],
      [CHR 0xE2, CHR 0x80, CHR 0x86], [CHR 0xE2, CHR 0x80, CHR 0x87],
      [CHR 0xE2, CHR 0x80, CHR 0x88], [CHR 0xE2, CHR 0x80, CHR 0x89],
      [CHR 0xE2, CHR 0x80, CHR 0x8A], [CHR 0xE2, CHR 0x80, CHR 0xA8],
      [CHR 0xE2, CHR 0x80, CHR 0xA9], [CHR 0xE2, CHR 0x80, CHR 0xAF],
      [CHR 0xE2, CHR 0x81, CHR 0x9F], [CHR 0xE3, CHR 0x80, CHR 0x80]]"

text \<open>\<open>strip_front ws s\<close> removes from the front of \<open>s\<close>, again and again, a member of \<open>ws\<close>.\<close>

function strip_front :: "string list \<Rightarrow> string \<Rightarrow> string" where
  "strip_front ws s =
     (case find (\<lambda>sp. sp \<noteq> [] \<and> take (length sp) s = sp) ws of
        None \<Rightarrow> s
      | Some sp \<Rightarrow> strip_front ws (drop (length sp) s))"
  by pat_completeness auto
termination
proof (relation "measure (\<lambda>(ws, s). length s)")
  show "wf (measure (\<lambda>(ws, s). length s))" by simp
next
  fix ws :: "string list" and s sp :: string
  assume "find (\<lambda>sp. sp \<noteq> [] \<and> take (length sp) s = sp) ws = Some sp"
  then have sp: "sp \<noteq> []" "take (length sp) s = sp"
    by (auto simp: find_Some_iff)
  then have "s \<noteq> []" by auto
  then show "((ws, drop (length sp) s), (ws, s)) \<in> measure (\<lambda>(ws, s). length s)"
    using sp(1) by simp
qed

definition strip :: "string \<Rightarrow> string" where
  "strip s = rev (strip_front (map rev whitespace) (rev (strip_front whitespace s)))"

text \<open>
  \<^verbatim>\<open>str.lower()\<close>, given on the letters A to Z. It is only used to compare an answer with
  \<open>y\<close>, \<open>yes\<close>, \<open>n\<close> and \<open>no\<close>, and no character outside ASCII has any of the letters
  of these words in its lower case, so the comparison is that of the program.
\<close>

definition lower_char :: "char \<Rightarrow> char" where
  "lower_char c = (let n = (of_char c :: nat) in if 65 \<le> n \<and> n \<le> 90 then char_of (n + 32) else c)"

definition lower :: "string \<Rightarrow> string" where
  "lower s = map lower_char s"

section \<open>Audit log\<close>

text \<open>
  \<^verbatim>\<open>AuditorAgent.log\<close> (\<open>log_stage\<close> here): an absent file starts from \<^verbatim>\<open>[]\<close>, as does a file \<^verbatim>\<open>json.load\<close> rejects
  (the \<^verbatim>\<open>except Exception\<close>); \<^verbatim>\<open>logs.append\<close> is outside the \<^verbatim>\<open>try\<close> and exists on lists only.
\<close>

definition load_log :: "world \<Rightarrow> json" where
  "load_log w =
     (case log_file w of
        Absent \<Rightarrow> JArr [] | Garbled \<Rightarrow> JArr [] | Unreadable \<Rightarrow> JArr [] | Holds v \<Rightarrow> v)"

definition log_record :: "string \<Rightarrow> json \<Rightarrow> json" where
  "log_record stage data = JObj [(''stage'', JStr stage), (''data'', data)]"

definition log_stage :: "string \<Rightarrow> json \<Rightarrow> unit io" where
  "log_stage stage data w =
     (case load_log w of
        JArr logs \<Rightarrow>
          (Inr (), w\<lparr>log_file := Holds (JArr (logs @ [log_record stage data])),
                      trace := trace w @ [Logged stage data]\<rparr>)
      | _ \<Rightarrow> (Inl AttributeError, w))"

section \<open>Knowledge base\<close>

text \<open>
  \<^verbatim>\<open>load_kb\<close>: a missing file is the empty list, and so is a file on which \<^verbatim>\<open>json.load\<close> raises
  \<^verbatim>\<open>JSONDecodeError\<close>, the one exception caught; any other exception of \<^verbatim>\<open>json.load\<close> leaves
  \<^verbatim>\<open>load_kb\<close>. Any other file gives the value it holds. \<^verbatim>\<open>add_to_kb\<close> appends to what
  \<^verbatim>\<open>load_kb\<close> returns and saves it.
\<close>

definition load_kb :: "world \<Rightarrow> exn + json" where
  "load_kb w =
     (case kb_file w of
        Absent \<Rightarrow> Inr (JArr [])
      | Garbled \<Rightarrow> Inr (JArr [])
      | Unreadable \<Rightarrow> Inl LoadError
      | Holds v \<Rightarrow> Inr v)"

definition kb_entry :: "string \<Rightarrow> json \<Rightarrow> json" where
  "kb_entry query plan = JObj [(''query'', JStr query), (''plan'', plan)]"

definition add_to_kb :: "string \<Rightarrow> json \<Rightarrow> unit io" where
  "add_to_kb query plan w =
     (case load_kb w of
        Inl e \<Rightarrow> (Inl e, w)
      | Inr (JArr kb) \<Rightarrow>
          (Inr (), w\<lparr>kb_file := Holds (JArr (kb @ [kb_entry query plan])),
                      trace := trace w @ [Stored query plan]\<rparr>)
      | Inr _ \<Rightarrow> (Inl AttributeError, w))"

text \<open>
  \<^verbatim>\<open>difflib.get_close_matches(word, possibilities, n=1, cutoff)\<close>: every possibility \<open>x\<close> whose
  \<^verbatim>\<open>ratio()\<close> against \<open>word\<close> reaches the cutoff is kept as the pair \<^verbatim>\<open>(score, x)\<close> (the two
  quick ratios tested before it are upper bounds of it), and \<^verbatim>\<open>heapq.nlargest(1, result)\<close>
  is the greatest pair, in the lexicographic order of tuples.
\<close>

definition get_close_matches :: "lib \<Rightarrow> string \<Rightarrow> string list \<Rightarrow> rat \<Rightarrow> string list" where
  "get_close_matches L word possibilities cutoff =
     (let result = [(ratio L x word, x). x \<leftarrow> possibilities, cutoff \<le> ratio L x word]
      in if result = [] then [] else [snd (Max (set result))])"

fun traverse :: "('a \<Rightarrow> exn + 'b) \<Rightarrow> 'a list \<Rightarrow> exn + 'b list" where
  "traverse f [] = Inr []"
| "traverse f (x # xs) =
     (case f x of
        Inl e \<Rightarrow> Inl e
      | Inr y \<Rightarrow> (case traverse f xs of Inl e \<Rightarrow> Inl e | Inr ys \<Rightarrow> Inr (y # ys)))"

text \<open>
  The stored queries are handed to \<^verbatim>\<open>difflib\<close> as strings, which is what \<^verbatim>\<open>add_to_kb\<close> stores.
  A stored query of another JSON type is a \<^verbatim>\<open>TypeError\<close> here: that is what \<^verbatim>\<open>difflib\<close> raises on
  a number, a boolean or \<^verbatim>\<open>null\<close>; a list or a dictionary in that place, which only a file
  edited by hand can hold, it would compare as a sequence, and that is not followed here.
\<close>

fun as_str :: "json \<Rightarrow> exn + string" where
  "as_str (JStr s) = Inr s"
| "as_str _ = Inl TypeError"

text \<open>The loop \<^verbatim>\<open>for item in kb: if item["query"] == match[0]: return item["plan"]\<close>.\<close>

fun first_with_query :: "string \<Rightarrow> json list \<Rightarrow> exn + json option" where
  "first_with_query m [] = Inr None"
| "first_with_query m (item # items) =
     (case py_index item ''query'' of
        Inl e \<Rightarrow> Inl e
      | Inr q \<Rightarrow>
          if q = JStr m
          then (case py_index item ''plan'' of Inl e \<Rightarrow> Inl e | Inr p \<Rightarrow> Inr (Some p))
          else first_with_query m items)"

definition find_similar_plan :: "lib \<Rightarrow> string \<Rightarrow> rat \<Rightarrow> world \<Rightarrow> exn + json option" where
  "find_similar_plan L query threshold w =
     (case load_kb w of
        Inl e \<Rightarrow> Inl e
      | Inr kb \<Rightarrow>
          if \<not> py_truthy kb then Inr None
          else
            (case py_iter kb of
               Inl e \<Rightarrow> Inl e
             | Inr items \<Rightarrow>
                 (case traverse (\<lambda>item. py_index item ''query'') items of
                    Inl e \<Rightarrow> Inl e
                  | Inr queries \<Rightarrow>
                      (case traverse as_str queries of
                         Inl e \<Rightarrow> Inl e
                       | Inr qs \<Rightarrow>
                           (case get_close_matches L query qs threshold of
                              [] \<Rightarrow> Inr None
                            | m # _ \<Rightarrow> first_with_query m items)))))"

section \<open>Collaborators\<close>

definition invoke :: "string io" where
  "invoke w =
     (case llm w of
        [] \<Rightarrow> (Inl CollaboratorError, w\<lparr>trace := trace w @ [Invoke]\<rparr>)
      | r # rs \<Rightarrow> (Inr r, w\<lparr>llm := rs, trace := trace w @ [Invoke]\<rparr>))"

text \<open>
  Both calls of \<^verbatim>\<open>search_tool.run\<close> sit in a \<^verbatim>\<open>try\<close> whose \<^verbatim>\<open>except Exception\<close> turns a
  failure into text for the next prompt, so a search only leaves its mark in the trace.
\<close>

definition search :: "unit io" where
  "search = emit Search"

definition run :: "json \<Rightarrow> proc io" where
  "run cmd w =
     (case shell w of
        [] \<Rightarrow> (Inr OtherFailure, w\<lparr>trace := trace w @ [Run cmd]\<rparr>)
      | p # ps \<Rightarrow> (Inr p, w\<lparr>shell := ps, trace := trace w @ [Run cmd]\<rparr>))"

text \<open>
  \<^verbatim>\<open>re.search(r'\{.*\}', response, re.DOTALL)\<close>: the match starts at the first opening
  brace and, the star being greedy, ends at the last closing brace after it.
  \<open>extract_json\<close> is the \<^verbatim>\<open>try\<close> block shared by the three agents: \<open>None\<close> stands for the
  \<^verbatim>\<open>except Exception\<close> branch, taken when there is no match or \<^verbatim>\<open>json.loads\<close> raises.
\<close>

definition regex_search :: "string \<Rightarrow> string option" where
  "regex_search s =
     (let t = dropWhile (\<lambda>c. c \<noteq> CHR ''{'') s;
          m = rev (dropWhile (\<lambda>c. c \<noteq> CHR ''}'') (rev t))
      in if m = [] then None else Some m)"

definition extract_json :: "lib \<Rightarrow> string \<Rightarrow> json option" where
  "extract_json L response =
     (case regex_search response of None \<Rightarrow> None | Some m \<Rightarrow> json_loads L m)"

section \<open>Comprehension agent\<close>

definition default_comprehension :: "string \<Rightarrow> json" where
  "default_comprehension user_input =
     JObj [(''intent'', JStr user_input), (''task_type'', JStr ''other''),
           (''complexity'', JStr ''simple''), (''requirements'', JArr []), (''risks'', JArr [])]"

definition analyze :: "lib \<Rightarrow> string \<Rightarrow> json io" where
  "analyze L user_input =
     bind (emit (Analyze user_input)) (\<lambda>_.
     bind invoke (\<lambda>search_decision.
     bind (if strip search_decision \<noteq> ''NO_SEARCH_NEEDED'' then search else ret ()) (\<lambda>_.
     bind invoke (\<lambda>response.
     ret (case extract_json L (strip response) of
            Some v \<Rightarrow> v
          | None \<Rightarrow> default_comprehension user_input)))))"

section \<open>Planning agent\<close>

definition default_plan :: json where
  "default_plan =
     JObj [(''steps'', JArr []), (''description'', JStr ''Failed to create plan''),
           (''estimated_time'', JStr ''unknown''), (''reversible'', JBool False)]"

text \<open>
  \<^verbatim>\<open>if error_context:\<close> reads the three keys into the prompt; \<open>None\<close> is Python's \<^verbatim>\<open>None\<close>.
\<close>

definition read_error_context :: "json option \<Rightarrow> exn + unit" where
  "read_error_context error_context =
     (case error_context of
        None \<Rightarrow> Inr ()
      | Some c \<Rightarrow>
          if py_truthy c
          then (case py_index c ''command'' of
                  Inl e \<Rightarrow> Inl e
                | Inr _ \<Rightarrow>
                    (case py_index c ''error'' of
                       Inl e \<Rightarrow> Inl e
                     | Inr _ \<Rightarrow>
                         (case py_index c ''remaining_steps'' of
                            Inl e \<Rightarrow> Inl e
                          | Inr _ \<Rightarrow> Inr ())))
          else Inr ())"

text \<open>The part of \<^verbatim>\<open>create_plan\<close> after the look-up in the knowledge base.\<close>

definition generate_plan :: "lib \<Rightarrow> json \<Rightarrow> json option \<Rightarrow> json io" where
  "generate_plan L comprehension_data error_context =
     bind (lift (py_get comprehension_data ''task_type'' JNull)) (\<lambda>task_type.
     bind (lift (py_get comprehension_data ''complexity'' JNull)) (\<lambda>complexity.
     bind (if task_type = JStr ''installation'' \<or> complexity = JStr ''complex''
           then search else ret ()) (\<lambda>_.
     bind (lift (read_error_context error_context)) (\<lambda>_.
     bind invoke (\<lambda>response.
     ret (case extract_json L (strip response) of
            Some v \<Rightarrow> v
          | None \<Rightarrow> default_plan))))))"

definition create_plan :: "lib \<Rightarrow> string \<Rightarrow> json \<Rightarrow> json option \<Rightarrow> json io" where
  "create_plan L user_input comprehension_data error_context =
     bind (emit (CreatePlan user_input comprehension_data error_context)) (\<lambda>_.
     bind (\<lambda>w. (find_similar_plan L user_input (3 / 5) w, w)) (\<lambda>existing_plan.
     case existing_plan of
       None \<Rightarrow> generate_plan L comprehension_data error_context
     | Some p \<Rightarrow>
         if py_truthy p
         then bind (emit (Print ''Retrieved existing plan from KB'')) (\<lambda>_. ret p)
         else generate_plan L comprehension_data error_context))"

section \<open>Examiner agent\<close>

definition default_analysis :: "json \<Rightarrow> json" where
  "default_analysis commands =
     JObj [(''risk_level'', JStr ''high''), (''requires_permission'', JBool True),
           (''dangerous_commands'', commands), (''safe_commands'', JArr []),
           (''recommendation'', JStr ''request_permission''),
           (''warning_message'', JStr ''Analysis failed'')]"

definition analyze_plan :: "lib \<Rightarrow> json \<Rightarrow> json io" where
  "analyze_plan L plan =
     bind (emit (AnalyzePlan plan)) (\<lambda>_.
     bind (lift (py_get plan ''steps'' (JArr []))) (\<lambda>commands.
     bind invoke (\<lambda>response.
     ret (case extract_json L (strip response) of
            Some v \<Rightarrow> v
          | None \<Rightarrow> default_analysis commands))))"

text \<open>
  The \<^verbatim>\<open>while True\<close> loop around \<^verbatim>\<open>input\<close>: each turn prompts and takes one line of standard
  input; \<^verbatim>\<open>input\<close> raises \<^verbatim>\<open>EOFError\<close> when no line is left.
\<close>

definition is_yes :: "string \<Rightarrow> bool" where
  "is_yes line = (let resp = lower (strip line) in resp = ''y'' \<or> resp = ''yes'')"

definition is_no :: "string \<Rightarrow> bool" where
  "is_no line = (let resp = lower (strip line) in resp = ''n'' \<or> resp = ''no'')"

fun ask :: "string list \<Rightarrow> bool io" where
  "ask [] w = (Inl EOFError, w\<lparr>stdin := [], trace := trace w @ [Ask]\<rparr>)"
| "ask (line # lines) w =
     (if is_yes line then (Inr True, w\<lparr>stdin := lines, trace := trace w @ [Ask]\<rparr>)
      else if is_no line then (Inr False, w\<lparr>stdin := lines, trace := trace w @ [Ask]\<rparr>)
      else ask lines (w\<lparr>stdin := lines, trace := trace w @ [Ask]\<rparr>))"

definition request_user_permission :: "json \<Rightarrow> json \<Rightarrow> bool io" where
  "request_user_permission plan analysis =
     bind (emit (RequestPermission plan analysis)) (\<lambda>_.
     bind (lift (py_index analysis ''recommendation'')) (\<lambda>recommendation.
     if recommendation = JStr ''deny'' then ret False
     else if recommendation = JStr ''approve'' then ret True
     else (\<lambda>w. ask (stdin w) w)))"

section \<open>Execution agent\<close>

definition step_result :: "json \<Rightarrow> string \<Rightarrow> string \<Rightarrow> json" where
  "step_result cmd out err =
     JObj [(''command'', cmd), (''status'', JStr ''success''),
           (''stdout'', JStr out), (''stderr'', JStr err)]"

definition stopped :: "string \<Rightarrow> json list \<Rightarrow> json \<Rightarrow> string \<Rightarrow> json \<Rightarrow> json" where
  "stopped status results cmd err remaining =
     JObj [(''status'', JStr status), (''results'', JArr results),
           (''error_context'',
              JObj [(''command'', cmd), (''error'', JStr err), (''remaining_steps'', remaining)])]"

definition finished :: "json list \<Rightarrow> json" where
  "finished results = JObj [(''status'', JStr ''success''), (''results'', JArr results)]"

text \<open>
  The body of \<^verbatim>\<open>for idx, cmd in enumerate(steps)\<close>, with \<open>n\<close> the \<^verbatim>\<open>len(steps)\<close> of the
  progress line. \<^verbatim>\<open>add_to_kb\<close> stands in the \<^verbatim>\<open>try\<close>, but what it can raise is not caught by
  the two \<^verbatim>\<open>except\<close> clauses.
\<close>

fun exec_loop :: "json \<Rightarrow> string \<Rightarrow> json \<Rightarrow> nat \<Rightarrow> nat \<Rightarrow> json list \<Rightarrow> json list \<Rightarrow> json io" where
  "exec_loop plan user_query steps n idx results [] = ret (finished results)"
| "exec_loop plan user_query steps n idx results (cmd # cmds) =
     bind (emit (Progress (idx + 1) n cmd)) (\<lambda>_.
     bind (run cmd) (\<lambda>p.
     case p of
       Completed out err \<Rightarrow>
         bind (add_to_kb user_query plan) (\<lambda>_.
         exec_loop plan user_query steps n (idx + 1) (results @ [step_result cmd out err]) cmds)
     | CalledProcessError msg \<Rightarrow>
         bind (lift (py_slice_from steps (idx + 1))) (\<lambda>remaining.
         ret (stopped ''failed'' results cmd msg remaining))
     | TimeoutExpired \<Rightarrow>
         bind (lift (py_slice_from steps (idx + 1))) (\<lambda>remaining.
         ret (stopped ''timeout'' results cmd ''Timeout'' remaining))
     | OtherFailure \<Rightarrow> raise CollaboratorError))"

definition execute :: "json \<Rightarrow> string \<Rightarrow> json io" where
  "execute plan user_query =
     bind (emit (Execute plan user_query)) (\<lambda>_.
     bind (lift (py_get plan ''steps'' (JArr []))) (\<lambda>steps.
     bind (lift (py_iter steps)) (\<lambda>cmds.
     exec_loop plan user_query steps (length cmds) 0 [] cmds)))"

section \<open>Auditor summary\<close>

definition summary :: "json \<Rightarrow> json io" where
  "summary execution_results =
     bind (lift (py_get execution_results ''total_commands'' (JNum 0))) (\<lambda>total.
     bind (lift (py_get execution_results ''executed_commands'' (JNum 0))) (\<lambda>executed.
     bind (lift (py_get execution_results ''results'' (JArr []))) (\<lambda>results.
     bind (lift (py_iter results)) (\<lambda>rs.
     bind (lift (traverse (\<lambda>r. py_index r ''status'') rs)) (\<lambda>statuses.
     bind (lift (py_get execution_results ''error_context'' JNull)) (\<lambda>error_context.
     bind (emit (Print (CHR 0x0A # ''Execution Summary:''))) (\<lambda>_.
     bind (emit (Summary
       (JObj [(''total_commands'', total), (''executed_commands'', executed),
              (''success_count'', JNum (of_nat (length (filter (\<lambda>s. s = JStr ''success'') statuses)))),
              (''failed_count'', JNum (of_nat (length (filter (\<lambda>s. s \<noteq> JStr ''success'') statuses)))),
              (''error_context'', error_context)]))) (\<lambda>_.
     ret (JObj [(''total_commands'', total), (''executed_commands'', executed),
              (''success_count'', JNum (of_nat (length (filter (\<lambda>s. s = JStr ''success'') statuses)))),
              (''failed_count'', JNum (of_nat (length (filter (\<lambda>s. s \<noteq> JStr ''success'') statuses)))),
              (''error_context'', error_context)])))))))))"

section \<open>Orchestrator\<close>

definition process_request :: "lib \<Rightarrow> string \<Rightarrow> unit io" where
  "process_request L user_input =
     bind (emit (Print ''Analyzing request...'')) (\<lambda>_.
     bind (analyze L user_input) (\<lambda>comprehension.
     bind (log_stage ''comprehension'' comprehension) (\<lambda>_.
     bind (emit (Print ''Generating plan...'')) (\<lambda>_.
     bind (create_plan L user_input comprehension None) (\<lambda>plan.
     bind (log_stage ''plan_creation'' plan) (\<lambda>_.
     bind (lift (py_get plan ''steps'' JNull)) (\<lambda>steps.
     if \<not> py_truthy steps then emit (Print ''No plan could be created.'')
     else
       bind (emit (Print ''Examining plan for risks...'')) (\<lambda>_.
       bind (analyze_plan L plan) (\<lambda>analysis.
       bind (log_stage ''plan_analysis'' analysis) (\<lambda>_.
       bind (lift (py_get analysis ''requires_permission'' (JBool True))) (\<lambda>requires_permission.
       bind (if py_truthy requires_permission
             then request_user_permission plan analysis else ret True) (\<lambda>permitted.
       if \<not> permitted then emit (Print ''Execution cancelled by user.'')
       else
         bind (emit (Print ''Executing plan...'')) (\<lambda>_.
         bind (execute plan user_input) (\<lambda>execution.
         bind (log_stage ''execution'' execution) (\<lambda>_.
         bind (summary execution) (\<lambda>_. ret ()))))))))))))))))"

section \<open>The library functions at concrete inputs\<close>

text \<open>
  \<^verbatim>\<open>SequenceMatcher.ratio()\<close> as \<^verbatim>\<open>difflib\<close> computes it with no junk: \<^verbatim>\<open>find_longest_match\<close>
  is the longest common block, the one starting earliest in \<open>a\<close> and then earliest in \<open>b\<close>
  among the longest; \<^verbatim>\<open>get_matching_blocks\<close> repeats the search to the left and to the right
  of the block; the ratio is \<^verbatim>\<open>2.0 * matches / (len(a) + len(b))\<close>, and \<^verbatim>\<open>1.0\<close> for two empty
  sequences. The sequences are the characters of the two strings.
\<close>

fun common_prefix :: "'a list \<Rightarrow> 'a list \<Rightarrow> nat" where
  "common_prefix (x # xs) (y # ys) = (if x = y then Suc (common_prefix xs ys) else 0)"
| "common_prefix _ _ = 0"

definition better :: "'a list \<Rightarrow> 'a list \<Rightarrow> nat \<times> nat \<times> nat \<Rightarrow> nat \<times> nat \<Rightarrow> nat \<times> nat \<times> nat" where
  "better a b best ij =
     (let k = common_prefix (drop (fst ij) a) (drop (snd ij) b)
      in if snd (snd best) < k then (fst ij, snd ij, k) else best)"

definition find_longest_match :: "'a list \<Rightarrow> 'a list \<Rightarrow> nat \<times> nat \<times> nat" where
  "find_longest_match a b =
     foldl (better a b) (0, 0, 0) (List.product [0..<length a] [0..<length b])"

lemma foldl_better_bound:
  "snd (snd s) = 0 \<or> fst s < length a \<Longrightarrow> \<forall>p \<in> set ps. fst p < length a \<Longrightarrow>
   snd (snd (foldl (better a b) s ps)) = 0 \<or> fst (foldl (better a b) s ps) < length a"
proof (induction ps arbitrary: s)
  case Nil
  then show ?case by simp
next
  case (Cons p ps)
  have "snd (snd (better a b s p)) = 0 \<or> fst (better a b s p) < length a"
    using Cons.prems by (auto simp: better_def Let_def)
  then show ?case using Cons.IH [of "better a b s p"] Cons.prems by simp
qed

lemma find_longest_match_bound:
  "(i, j, k) = find_longest_match a b \<Longrightarrow> 0 < k \<Longrightarrow> i < length a"
  using foldl_better_bound [of "(0, 0, 0)" a "List.product [0..<length a] [0..<length b]" b]
  by (auto simp: find_longest_match_def dest: sym)

function matching :: "'a list \<Rightarrow> 'a list \<Rightarrow> nat" where
  "matching a b =
     (case find_longest_match a b of
        (i, j, k) \<Rightarrow>
          if k = 0 then 0
          else (if 0 < i \<and> 0 < j then matching (take i a) (take j b) else 0) + k
             + (if i + k < length a \<and> j + k < length b
                then matching (drop (i + k) a) (drop (j + k) b) else 0))"
  by pat_completeness auto
termination
  by (relation "measure (\<lambda>(a, b). length a)") (auto dest: find_longest_match_bound)

definition seq_ratio :: "string \<Rightarrow> string \<Rightarrow> rat" where
  "seq_ratio a b =
     (let x = utf8_chars a; y = utf8_chars b in
      if length x + length y = 0 then 1
      else of_nat (2 * matching x y) / of_nat (length x + length y))"

text \<open>
  A library instance for concrete runs: the ratio above, and \<^verbatim>\<open>json.loads\<close> given on the
  finitely many texts of a table (it raises on every other text).
\<close>

definition table_lib :: "(string \<times> json) list \<Rightarrow> lib" where
  "table_lib texts = \<lparr>ratio = seq_ratio, json_loads = map_of texts\<rparr>"

section \<open>Stages of a request\<close>

text \<open>
  Two prefixes of \<^verbatim>\<open>process_request\<close>, to speak about the point a request has reached:
  \<open>planning\<close> runs up to the plan that \<^verbatim>\<open>create_plan\<close> returns; \<open>examination\<close> logs that plan,
  reads its steps and runs the examiner up to the logged analysis.
\<close>

definition planning :: "lib \<Rightarrow> string \<Rightarrow> json io" where
  "planning L user_input =
     bind (emit (Print ''Analyzing request...'')) (\<lambda>_.
     bind (analyze L user_input) (\<lambda>comprehension.
     bind (log_stage ''comprehension'' comprehension) (\<lambda>_.
     bind (emit (Print ''Generating plan...'')) (\<lambda>_.
     create_plan L user_input comprehension None))))"

definition examination :: "lib \<Rightarrow> json \<Rightarrow> (json \<times> json) io" where
  "examination L plan =
     bind (log_stage ''plan_creation'' plan) (\<lambda>_.
     bind (lift (py_get plan ''steps'' JNull)) (\<lambda>steps.
     bind (emit (Print ''Examining plan for risks...'')) (\<lambda>_.
     bind (analyze_plan L plan) (\<lambda>analysis.
     bind (log_stage ''plan_analysis'' analysis) (\<lambda>_.
     ret (steps, analysis))))))"

text \<open>
  The rest of \<^verbatim>\<open>process_request\<close>, cut at the same points: \<open>run_plan\<close> is the execution
  stage with its log record and summary, \<open>gate_and_run\<close> the test of
  \<^verbatim>\<open>requires_permission\<close> with the gate in front of it, \<open>after_planning\<close> everything that
  follows \<^verbatim>\<open>create_plan\<close>.
\<close>

definition run_plan :: "string \<Rightarrow> json \<Rightarrow> unit io" where
  "run_plan user_input plan =
     bind (emit (Print ''Executing plan...'')) (\<lambda>_.
     bind (execute plan user_input) (\<lambda>execution.
     bind (log_stage ''execution'' execution) (\<lambda>_.
     bind (summary execution) (\<lambda>_. ret ()))))"

definition gate_and_run :: "string \<Rightarrow> json \<Rightarrow> json \<Rightarrow> unit io" where
  "gate_and_run user_input plan analysis =
     bind (lift (py_get analysis ''requires_permission'' (JBool True))) (\<lambda>requires_permission.
     bind (if py_truthy requires_permission
           then request_user_permission plan analysis else ret True) (\<lambda>permitted.
     if \<not> permitted then emit (Print ''Execution cancelled by user.'')
     else run_plan user_input plan))"

definition after_planning :: "lib \<Rightarrow> string \<Rightarrow> json \<Rightarrow> unit io" where
  "after_planning L user_input plan =
     bind (log_stage ''plan_creation'' plan) (\<lambda>_.
     bind (lift (py_get plan ''steps'' JNull)) (\<lambda>steps.
     if \<not> py_truthy steps then emit (Print ''No plan could be created.'')
     else
       bind (emit (Print ''Examining plan for risks...'')) (\<lambda>_.
       bind (analyze_plan L plan) (\<lambda>analysis.
       bind (log_stage ''plan_analysis'' analysis) (\<lambda>_.
       gate_and_run user_input plan analysis)))))"

section \<open>Reading the trace\<close>

text \<open>
  The \<^verbatim>\<open>error_context\<close> arguments of the \<^verbatim>\<open>create_plan\<close> calls of a trace, in order, and the
  events of the permission gate.
\<close>

fun plan_context :: "event \<Rightarrow> json option list" where
  "plan_context (CreatePlan user_input comprehension error_context) = [error_context]"
| "plan_context _ = []"

definition plan_contexts :: "event list \<Rightarrow> json option list" where
  "plan_contexts tr = concat (map plan_context tr)"

fun gate_event :: "event \<Rightarrow> bool" where
  "gate_event (RequestPermission plan analysis) = True"
| "gate_event Ask = True"
| "gate_event _ = False"

text \<open>\<open>emits P m\<close>: running \<open>m\<close> only adds events to the trace, all of them satisfying \<open>P\<close>.\<close>

definition emits :: "(event \<Rightarrow> bool) \<Rightarrow> 'a io \<Rightarrow> bool" where
  "emits P m = (\<forall>w. \<exists>evs. trace (snd (m w)) = trace w @ evs \<and> list_all P evs)"

section \<open>Files and example worlds\<close>

fun records_of :: "disk_file \<Rightarrow> json list" where
  "records_of (Holds (JArr xs)) = xs"
| "records_of _ = []"

text \<open>A file that \<^verbatim>\<open>load\<close> and \<^verbatim>\<open>append\<close> accept: absent, rejected by the parser, or a list.\<close>

fun appendable :: "disk_file \<Rightarrow> bool" where
  "appendable Absent = True"
| "appendable Garbled = True"
| "appendable (Holds (JArr xs)) = True"
| "appendable _ = False"

text \<open>
  A log file that \<^verbatim>\<open>AuditorAgent.log\<close> can append to: its \<^verbatim>\<open>except Exception\<close> also takes a file
  that cannot be read at all for the empty list.
\<close>

fun loggable :: "disk_file \<Rightarrow> bool" where
  "loggable Unreadable = True"
| "loggable f = appendable f"

definition log_world_bad :: world where
  "log_world_bad = \<lparr>llm = [], stdin = [], shell = [], kb_file = Absent,
     log_file = Holds (JObj [(''note'', JStr ''not a list'')]), trace = []\<rparr>"

definition log_world_ok :: world where
  "log_world_ok = \<lparr>llm = [], stdin = [], shell = [], kb_file = Absent,
     log_file = Holds (JArr [log_record ''comprehension'' (JObj [])]), trace = []\<rparr>"

definition plan3 :: json where
  "plan3 = JObj [(''steps'', JArr [JStr ''ls'', JStr ''false'', JStr ''echo done'']),
                 (''description'', JStr ''list, fail, report''),
                 (''estimated_time'', JStr ''1s''), (''reversible'', JBool True)]"

definition chat_world :: world where
  "chat_world = \<lparr>llm = [''linux ls usage'', ''I think {this} is unclear''],
     stdin = [''maybe'', '' Y '', ''n''],
     shell = [Completed ''a.txt'' [], CalledProcessError ''exit status 1'', Completed [] []],
     kb_file = Absent, log_file = Absent, trace = []\<rparr>"

text \<open>A world whose knowledge base already holds a plan for the request \<open>list files\<close>.\<close>

definition hit_world :: world where
  "hit_world = \<lparr>llm = [''NO_SEARCH_NEEDED'', ''I cannot say'', ''unclear''],
     stdin = [''maybe'', '' Y ''],
     shell = [Completed ''a.txt'' [], CalledProcessError ''exit status 1''],
     kb_file = Holds (JArr [kb_entry ''list files'' plan3]),
     log_file = Absent, trace = []\<rparr>"

text \<open>
  A world where nothing the LLM says can be parsed, and a world where its assessment of a
  cached one-step plan parses and recommends \<open>deny\<close> while asking for no permission.
\<close>

definition miss_world :: world where
  "miss_world = \<lparr>llm = [''NO_SEARCH_NEEDED'', ''nothing useful'', ''sorry, no plan'', ''unused''],
     stdin = [''y''], shell = [Completed [] []],
     kb_file = Absent, log_file = Absent, trace = []\<rparr>"

definition plan1 :: json where
  "plan1 = JObj [(''steps'', JArr [JStr ''ls'']), (''description'', JStr ''list'')]"

definition deny_text :: string where
  \<open>deny_text = ''{"risk_level": "high", "requires_permission": false, "recommendation": "deny"}''\<close>

definition deny_analysis :: json where
  "deny_analysis = JObj [(''risk_level'', JStr ''high''), (''requires_permission'', JBool False),
                         (''recommendation'', JStr ''deny'')]"

definition deny_lib :: lib where
  "deny_lib = table_lib [(deny_text, deny_analysis)]"

definition deny_world :: world where
  "deny_world = \<lparr>llm = [''NO_SEARCH_NEEDED'', ''I cannot say'', ''Assessment: '' @ deny_text],
     stdin = [], shell = [Completed ''a.txt'' []],
     kb_file = Holds (JArr [kb_entry ''list files'' plan1]),
     log_file = Absent, trace = []\<rparr>"

text \<open>
  Two knowledge bases: one with two different queries, one where the same query was stored
  twice with different plans.
\<close>

definition two_world :: world where
  "two_world = \<lparr>llm = [], stdin = [], shell = [],
     kb_file = Holds (JArr [kb_entry ''reboot now'' plan1, kb_entry ''list files'' plan3]),
     log_file = Absent, trace = []\<rparr>"

definition dup_world :: world where
  "dup_world = \<lparr>llm = [], stdin = [], shell = [],
     kb_file = Holds (JArr [kb_entry ''list files'' plan3, kb_entry ''list files'' plan1]),
     log_file = Absent, trace = []\<rparr>"

text \<open>The steps that succeed are the outcomes with exit status 0.\<close>

fun completed :: "proc \<Rightarrow> bool" where
  "completed (Completed out err) = True"
| "completed _ = False"

text \<open>
  A world whose knowledge base holds a two-step plan for the request \<open>show date\<close>, both
  steps of which are going to succeed.
\<close>

definition plan2 :: json where
  "plan2 = JObj [(''steps'', JArr [JStr ''date'', JStr ''uptime'']),
                 (''description'', JStr ''date and uptime'')]"

definition warm_world :: world where
  "warm_world = \<lparr>llm = [''NO_SEARCH_NEEDED'', ''I cannot say'', ''unclear''],
     stdin = [''yes''],
     shell = [Completed ''Mon'' [], Completed ''up 1 day'' []],
     kb_file = Holds (JArr [kb_entry ''show date'' plan2]),
     log_file = Absent, trace = []\<rparr>"

section \<open>Running the monad\<close>

lemma bind_simps:
  "bind (ret x) f = f x"
  "bind (raise e) f = raise e"
  "bind (lift (Inr x)) f = f x"
  "bind (lift (Inl e)) f = raise e"
  by (auto simp: bind_def ret_def raise_def lift_def fun_eq_iff)

lemma bind_emit: "bind (emit e) f w = f () (w\<lparr>trace := trace w @ [e]\<rparr>)"
  by (simp add: bind_def emit_def)

lemma bind_invoke:
  "llm w = r # rs \<Longrightarrow> bind invoke f w = f r (w\<lparr>llm := rs, trace := trace w @ [Invoke]\<rparr>)"
  by (simp add: bind_def invoke_def)

lemma bind_run:
  "shell w = p # ps \<Longrightarrow> bind (run cmd) f w = f p (w\<lparr>shell := ps, trace := trace w @ [Run cmd]\<rparr>)"
  by (simp add: bind_def run_def)

lemma appendable_cases:
  "appendable f \<Longrightarrow> f = Absent \<or> f = Garbled \<or> (\<exists>xs. f = Holds (JArr xs))"
  by (cases f rule: appendable.cases) auto

lemma bind_add_to_kb:
  "appendable (kb_file w) \<Longrightarrow>
   bind (add_to_kb q plan) f w =
     f () (w\<lparr>kb_file := Holds (JArr (records_of (kb_file w) @ [kb_entry q plan])),
              trace := trace w @ [Stored q plan]\<rparr>)"
  by (auto dest!: appendable_cases simp: bind_def add_to_kb_def load_kb_def)

section \<open>Audit log: what a call leaves in the file\<close>

text \<open>
  Claim C10, as amended. On a log file that is absent, unparseable (rejected by the parser,
  or not readable at all) or holds a JSON list, \<^verbatim>\<open>AuditorAgent.log\<close> returns and leaves the
  file as a list ending with the new \<open>{stage, data}\<close> record: the records of a list are kept
  in front of it, an absent or unparseable file leaves the new record alone (\<open>records_of\<close>
  is empty there).
\<close>

theorem log_appends:
  "loggable (log_file w) \<Longrightarrow>
   log_stage stage data w =
     (Inr (), w\<lparr>log_file := Holds (JArr (records_of (log_file w) @ [log_record stage data])),
                 trace := trace w @ [Logged stage data]\<rparr>)"
  by (cases "log_file w" rule: loggable.cases)
    (auto dest!: appendable_cases simp: log_stage_def load_log_def)

theorem log_appends_witness:
  "loggable (log_file log_world_ok) \<and>
   log_stage ''plan_creation'' default_plan log_world_ok =
     (Inr (), log_world_ok\<lparr>log_file := Holds (JArr [log_record ''comprehension'' (JObj []),
                                         log_record ''plan_creation'' default_plan]),
                 trace := [Logged ''plan_creation'' default_plan]\<rparr>)"
  using log_appends [of log_world_ok "''plan_creation''" default_plan]
  by (simp add: log_world_ok_def)

text \<open>
  Claim C10 as stated fails on a log file that parses as JSON but is not a list: the call
  raises \<^verbatim>\<open>AttributeError\<close> at \<^verbatim>\<open>logs.append\<close> and leaves the file as it was.
\<close>

theorem log_not_a_list_counterexample:
  "log_file log_world_bad = Holds (JObj [(''note'', JStr ''not a list'')]) \<and>
   log_stage ''comprehension'' (JObj []) log_world_bad = (Inl AttributeError, log_world_bad)"
  by (simp add: log_world_bad_def log_stage_def load_log_def)

section \<open>Replies without a JSON object\<close>

text \<open>
  Claim C2. Whatever the plan (a dictionary) and whatever the LLM replies, when no JSON
  object can be extracted and parsed from the reply, \<^verbatim>\<open>analyze_plan\<close> returns the conservative
  default assessment, with \<open>dangerous_commands\<close> the plan's steps (\<^verbatim>\<open>[]\<close> when it has none),
  without raising; the result is a function of the plan alone.
\<close>

theorem analyze_plan_parse_failure:
  "llm w = reply # rest \<Longrightarrow> extract_json L (strip reply) = None \<Longrightarrow>
   analyze_plan L (JObj kvs) w =
     (Inr (JObj [(''risk_level'', JStr ''high''), (''requires_permission'', JBool True),
                 (''dangerous_commands'',
                    case map_of kvs ''steps'' of None \<Rightarrow> JArr [] | Some steps \<Rightarrow> steps),
                 (''safe_commands'', JArr []),
                 (''recommendation'', JStr ''request_permission''),
                 (''warning_message'', JStr ''Analysis failed'')]),
      w\<lparr>llm := rest, trace := trace w @ [AnalyzePlan (JObj kvs), Invoke]\<rparr>)"
  by (simp add: analyze_plan_def bind_emit bind_simps bind_invoke ret_def default_analysis_def)

theorem analyze_plan_parse_failure_witness:
  "llm (chat_world\<lparr>llm := [''I think {this} is unclear'']\<rparr>) = [''I think {this} is unclear''] \<and>
   extract_json (table_lib []) (strip ''I think {this} is unclear'') = None \<and>
   analyze_plan (table_lib []) plan3 (chat_world\<lparr>llm := [''I think {this} is unclear'']\<rparr>) =
     (Inr (JObj [(''risk_level'', JStr ''high''), (''requires_permission'', JBool True),
                 (''dangerous_commands'', JArr [JStr ''ls'', JStr ''false'', JStr ''echo done'']),
                 (''safe_commands'', JArr []),
                 (''recommendation'', JStr ''request_permission''),
                 (''warning_message'', JStr ''Analysis failed'')]),
      chat_world\<lparr>llm := [], trace := [AnalyzePlan plan3, Invoke]\<rparr>)"
proof -
  have e: "extract_json (table_lib []) (strip ''I think {this} is unclear'') = None"
    by code_simp
  show ?thesis
    using e analyze_plan_parse_failure [of "chat_world\<lparr>llm := [''I think {this} is unclear'']\<rparr>"
        "''I think {this} is unclear''" "[]" "table_lib []"
        "[(''steps'', JArr [JStr ''ls'', JStr ''false'', JStr ''echo done'']),
          (''description'', JStr ''list, fail, report''),
          (''estimated_time'', JStr ''1s''), (''reversible'', JBool True)]"]
    by (simp add: plan3_def chat_world_def)
qed

text \<open>
  Claim C8. Whatever the request and whatever the LLM replies, when no JSON object can be
  extracted and parsed from the second reply, \<^verbatim>\<open>ComprehensionAgent.analyze\<close> returns the default
  descriptor, whose intent is the request, without raising.
\<close>

theorem analyze_parse_failure:
  "llm w = decision # reply # rest \<Longrightarrow> extract_json L (strip reply) = None \<Longrightarrow>
   analyze L user_input w =
     (Inr (JObj [(''intent'', JStr user_input), (''task_type'', JStr ''other''),
                 (''complexity'', JStr ''simple''), (''requirements'', JArr []),
                 (''risks'', JArr [])]),
      w\<lparr>llm := rest,
         trace := trace w @ Analyze user_input # Invoke #
           (if strip decision \<noteq> ''NO_SEARCH_NEEDED'' then [Search, Invoke] else [Invoke])\<rparr>)"
  by (simp add: analyze_def bind_emit bind_simps bind_invoke ret_def search_def
      default_comprehension_def)

theorem analyze_parse_failure_witness:
  "llm chat_world = [''linux ls usage'', ''I think {this} is unclear''] \<and>
   extract_json (table_lib []) (strip ''I think {this} is unclear'') = None \<and>
   analyze (table_lib []) ''list files'' chat_world =
     (Inr (JObj [(''intent'', JStr ''list files''), (''task_type'', JStr ''other''),
                 (''complexity'', JStr ''simple''), (''requirements'', JArr []),
                 (''risks'', JArr [])]),
      chat_world\<lparr>llm := [], trace := [Analyze ''list files'', Invoke, Search, Invoke]\<rparr>)"
proof -
  have e: "extract_json (table_lib []) (strip ''I think {this} is unclear'') = None"
    by code_simp
  have s: "strip ''linux ls usage'' \<noteq> ''NO_SEARCH_NEEDED''"
    by code_simp
  show ?thesis
    using e s analyze_parse_failure [of chat_world "''linux ls usage''"
        "''I think {this} is unclear''" "[]" "table_lib []" "''list files''"]
    by (simp add: chat_world_def)
qed

section \<open>Permission gate\<close>

lemma ask_first_recognized:
  "\<forall>l \<in> set pre. \<not> is_yes l \<and> \<not> is_no l \<Longrightarrow> is_yes line \<or> is_no line \<Longrightarrow>
   ask (pre @ line # post) w =
     (Inr (is_yes line), w\<lparr>stdin := post, trace := trace w @ replicate (Suc (length pre)) Ask\<rparr>)"
proof (induction pre arbitrary: w)
  case Nil
  then show ?case by auto
next
  case (Cons l pre)
  have "ask ((l # pre) @ line # post) w =
        ask (pre @ line # post) (w\<lparr>stdin := pre @ line # post, trace := trace w @ [Ask]\<rparr>)"
    using Cons.prems(1) by simp
  also have "\<dots> = (Inr (is_yes line),
      w\<lparr>stdin := post, trace := trace w @ replicate (Suc (length (l # pre))) Ask\<rparr>)"
    using Cons.IH [of "w\<lparr>stdin := pre @ line # post, trace := trace w @ [Ask]\<rparr>"] Cons.prems
    by (simp add: replicate_app_Cons_same)
  finally show ?case .
qed

lemma is_yes_iff: "is_yes l \<longleftrightarrow> lower (strip l) \<in> {''y'', ''yes''}"
  by (simp add: is_yes_def Let_def)

lemma is_no_iff: "is_no l \<longleftrightarrow> lower (strip l) \<in> {''n'', ''no''}"
  by (simp add: is_no_def Let_def)

lemma not_yes_and_no: "\<not> (is_yes l \<and> is_no l)"
  by (auto simp: is_yes_def is_no_def Let_def)

text \<open>
  Claim C3. \<^verbatim>\<open>request_user_permission\<close> is decided by the assessment's recommendation:
  \<open>deny\<close> returns false and \<open>approve\<close> returns true, neither reading standard input. Any
  other recommendation prompts once per line until a line is recognised, that is until its
  text, stripped and lowered, is one of \<open>y\<close>, \<open>yes\<close>, \<open>n\<close>, \<open>no\<close> (the lines \<open>pre\<close> before
  it are not): the gate returns true when that line is \<open>y\<close> or \<open>yes\<close>, and false when it is
  \<open>n\<close> or \<open>no\<close>.
\<close>

theorem permission_gate:
  "py_index analysis ''recommendation'' = Inr r \<Longrightarrow>
   (r = JStr ''deny'' \<longrightarrow>
      request_user_permission plan analysis w =
        (Inr False, w\<lparr>trace := trace w @ [RequestPermission plan analysis]\<rparr>)) \<and>
   (r = JStr ''approve'' \<longrightarrow>
      request_user_permission plan analysis w =
        (Inr True, w\<lparr>trace := trace w @ [RequestPermission plan analysis]\<rparr>)) \<and>
   (r \<noteq> JStr ''deny'' \<and> r \<noteq> JStr ''approve'' \<and> stdin w = pre @ line # post \<and>
    (\<forall>l \<in> set pre. lower (strip l) \<notin> {''y'', ''yes'', ''n'', ''no''}) \<and>
    lower (strip line) \<in> {''y'', ''yes''} \<longrightarrow>
      request_user_permission plan analysis w =
        (Inr True,
         w\<lparr>stdin := post,
            trace := trace w @ RequestPermission plan analysis # replicate (Suc (length pre)) Ask\<rparr>)) \<and>
   (r \<noteq> JStr ''deny'' \<and> r \<noteq> JStr ''approve'' \<and> stdin w = pre @ line # post \<and>
    (\<forall>l \<in> set pre. lower (strip l) \<notin> {''y'', ''yes'', ''n'', ''no''}) \<and>
    lower (strip line) \<in> {''n'', ''no''} \<longrightarrow>
      request_user_permission plan analysis w =
        (Inr False,
         w\<lparr>stdin := post,
            trace := trace w @ RequestPermission plan analysis # replicate (Suc (length pre)) Ask\<rparr>))"
proof -
  assume r: "py_index analysis ''recommendation'' = Inr r"
  let ?w = "w\<lparr>trace := trace w @ [RequestPermission plan analysis]\<rparr>"
  have fixed: "request_user_permission plan analysis w = (Inr b, ?w)"
    if "r = JStr ''deny'' \<and> \<not> b \<or> r = JStr ''approve'' \<and> b" for b
    using r that by (auto simp: request_user_permission_def bind_emit bind_simps ret_def)
  have asked: "request_user_permission plan analysis w =
      (Inr (is_yes line),
       w\<lparr>stdin := post,
          trace := trace w @ RequestPermission plan analysis # replicate (Suc (length pre)) Ask\<rparr>)"
    if a: "r \<noteq> JStr ''deny''" "r \<noteq> JStr ''approve''" "stdin w = pre @ line # post"
      "\<forall>l \<in> set pre. lower (strip l) \<notin> {''y'', ''yes'', ''n'', ''no''}"
      "is_yes line \<or> is_no line"
  proof -
    have u: "\<forall>l \<in> set pre. \<not> is_yes l \<and> \<not> is_no l"
      using a(4) by (auto simp: is_yes_iff is_no_iff)
    have "request_user_permission plan analysis w = ask (pre @ line # post) ?w"
      using r a(1-3) by (simp add: request_user_permission_def bind_emit bind_simps)
    also have "\<dots> = (Inr (is_yes line),
         ?w\<lparr>stdin := post, trace := trace ?w @ replicate (Suc (length pre)) Ask\<rparr>)"
      by (rule ask_first_recognized [OF u a(5)])
    finally show ?thesis by simp
  qed
  show ?thesis
  proof (intro conjI impI)
    assume "r = JStr ''deny''"
    then show "request_user_permission plan analysis w = (Inr False, ?w)"
      using fixed [of False] by simp
  next
    assume "r = JStr ''approve''"
    then show "request_user_permission plan analysis w = (Inr True, ?w)"
      using fixed [of True] by simp
  next
    assume a: "r \<noteq> JStr ''deny'' \<and> r \<noteq> JStr ''approve'' \<and> stdin w = pre @ line # post \<and>
      (\<forall>l \<in> set pre. lower (strip l) \<notin> {''y'', ''yes'', ''n'', ''no''}) \<and>
      lower (strip line) \<in> {''y'', ''yes''}"
    then have "is_yes line" by (simp add: is_yes_iff)
    then show "request_user_permission plan analysis w =
        (Inr True,
         w\<lparr>stdin := post,
            trace := trace w @ RequestPermission plan analysis # replicate (Suc (length pre)) Ask\<rparr>)"
      using asked a by simp
  next
    assume a: "r \<noteq> JStr ''deny'' \<and> r \<noteq> JStr ''approve'' \<and> stdin w = pre @ line # post \<and>
      (\<forall>l \<in> set pre. lower (strip l) \<notin> {''y'', ''yes'', ''n'', ''no''}) \<and>
      lower (strip line) \<in> {''n'', ''no''}"
    then have "is_no line" by (simp add: is_no_iff)
    moreover from this have "\<not> is_yes line" using not_yes_and_no [of line] by simp
    ultimately show "request_user_permission plan analysis w =
        (Inr False,
         w\<lparr>stdin := post,
            trace := trace w @ RequestPermission plan analysis # replicate (Suc (length pre)) Ask\<rparr>)"
      using asked a by simp
  qed
qed

theorem permission_gate_witness:
  "request_user_permission plan3 (JObj [(''recommendation'', JStr ''deny'')]) chat_world =
     (Inr False,
      chat_world\<lparr>trace := [RequestPermission plan3 (JObj [(''recommendation'', JStr ''deny'')])]\<rparr>) \<and>
   request_user_permission plan3 (JObj [(''recommendation'', JStr ''approve'')]) chat_world =
     (Inr True,
      chat_world\<lparr>trace := [RequestPermission plan3 (JObj [(''recommendation'', JStr ''approve'')])]\<rparr>) \<and>
   stdin chat_world = [''maybe'', '' Y '', ''n''] \<and>
   lower (strip ''maybe'') = ''maybe'' \<and> lower (strip '' Y '') = ''y'' \<and>
   request_user_permission plan3 (default_analysis (JArr [])) chat_world =
     (Inr True,
      chat_world\<lparr>stdin := [''n''],
        trace := [RequestPermission plan3 (default_analysis (JArr [])), Ask, Ask]\<rparr>) \<and>
   lower (strip [CHR ''y'', CHR 0xC2, CHR 0xA0]) = ''y'' \<and>
   request_user_permission plan3 (default_analysis (JArr []))
       (chat_world\<lparr>stdin := [[CHR ''y'', CHR 0xC2, CHR 0xA0], ''n'']\<rparr>) =
     (Inr True,
      chat_world\<lparr>stdin := [''n''],
        trace := [RequestPermission plan3 (default_analysis (JArr [])), Ask]\<rparr>) \<and>
   lower (strip ''what?'') = ''what?'' \<and> lower (strip ''NO'') = ''no'' \<and>
   request_user_permission plan3 (default_analysis (JArr []))
       (chat_world\<lparr>stdin := [''what?'', ''NO'', ''y'']\<rparr>) =
     (Inr False,
      chat_world\<lparr>stdin := [''y''],
        trace := [RequestPermission plan3 (default_analysis (JArr [])), Ask, Ask]\<rparr>)"
proof -
  have l: "lower (strip ''maybe'') = ''maybe''" "lower (strip '' Y '') = ''y''"
    "lower (strip [CHR ''y'', CHR 0xC2, CHR 0xA0]) = ''y''"
    "lower (strip ''what?'') = ''what?''" "lower (strip ''NO'') = ''no''"
    by code_simp+
  have i: "stdin chat_world = [''maybe''] @ '' Y '' # [''n'']"
    "stdin (chat_world\<lparr>stdin := [[CHR ''y'', CHR 0xC2, CHR 0xA0], ''n'']\<rparr>) =
       [] @ [CHR ''y'', CHR 0xC2, CHR 0xA0] # [''n'']"
    "stdin (chat_world\<lparr>stdin := [''what?'', ''NO'', ''y'']\<rparr>) = [''what?''] @ ''NO'' # [''y'']"
    by (simp_all add: chat_world_def)
  have d: "py_index (default_analysis (JArr [])) ''recommendation'' = Inr (JStr ''request_permission'')"
    by (simp add: default_analysis_def)
  show ?thesis
    using l i
      permission_gate [of "JObj [(''recommendation'', JStr ''deny'')]" "JStr ''deny''"
        plan3 chat_world "[]" "[]" "[]"]
      permission_gate [of "JObj [(''recommendation'', JStr ''approve'')]" "JStr ''approve''"
        plan3 chat_world "[]" "[]" "[]"]
      permission_gate [OF d, of plan3 chat_world "[''maybe'']" "'' Y ''" "[''n'']"]
      permission_gate [OF d, of plan3 "chat_world\<lparr>stdin := [[CHR ''y'', CHR 0xC2, CHR 0xA0], ''n'']\<rparr>"
        "[]" "[CHR ''y'', CHR 0xC2, CHR 0xA0]" "[''n'']"]
      permission_gate [OF d, of plan3 "chat_world\<lparr>stdin := [''what?'', ''NO'', ''y'']\<rparr>"
        "[''what?'']" "''NO''" "[''y'']"]
    by (simp add: chat_world_def)
qed

section \<open>Execution\<close>

text \<open>
  Claim C4. For a plan whose steps are \<open>[A, B, C]\<close>, where the shell completes \<open>A\<close> and
  raises \<^verbatim>\<open>CalledProcessError\<close> on \<open>B\<close>, \<^verbatim>\<open>execute\<close> returns status \<open>failed\<close> with the single
  success record of \<open>A\<close> as results, \<open>B\<close> as the failed command and \<open>[C]\<close> as remaining
  steps; \<open>B\<close> is in neither list, and the trace and the shell's unread outcomes show that
  nothing is run after \<open>B\<close>. The knowledge-base file is one that \<^verbatim>\<open>add_to_kb\<close> can append to.
\<close>

theorem execute_stops_at_failure:
  "map_of kvs ''steps'' = Some (JArr [A, B, C]) \<Longrightarrow>
   shell w = Completed out err # CalledProcessError msg # rest \<Longrightarrow>
   appendable (kb_file w) \<Longrightarrow>
   execute (JObj kvs) user_query w =
     (Inr (JObj [(''status'', JStr ''failed''),
                 (''results'',
                    JArr [JObj [(''command'', A), (''status'', JStr ''success''),
                                (''stdout'', JStr out), (''stderr'', JStr err)]]),
                 (''error_context'',
                    JObj [(''command'', B), (''error'', JStr msg),
                          (''remaining_steps'', JArr [C])])]),
      w\<lparr>shell := rest,
         kb_file := Holds (JArr (records_of (kb_file w) @ [kb_entry user_query (JObj kvs)])),
         trace := trace w @
           [Execute (JObj kvs) user_query, Progress 1 3 A, Run A,
            Stored user_query (JObj kvs), Progress 2 3 B, Run B]\<rparr>)"
  by (simp add: execute_def bind_emit bind_simps bind_run bind_add_to_kb ret_def stopped_def
      step_result_def)

theorem execute_stops_at_failure_witness:
  "shell chat_world =
     [Completed ''a.txt'' [], CalledProcessError ''exit status 1'', Completed [] []] \<and>
   appendable (kb_file chat_world) \<and>
   execute plan3 ''list files'' chat_world =
     (Inr (JObj [(''status'', JStr ''failed''),
                 (''results'',
                    JArr [JObj [(''command'', JStr ''ls''), (''status'', JStr ''success''),
                                (''stdout'', JStr ''a.txt''), (''stderr'', JStr [])]]),
                 (''error_context'',
                    JObj [(''command'', JStr ''false''), (''error'', JStr ''exit status 1''),
                          (''remaining_steps'', JArr [JStr ''echo done''])])]),
      chat_world\<lparr>shell := [Completed [] []],
         kb_file := Holds (JArr [kb_entry ''list files'' plan3]),
         trace := [Execute plan3 ''list files'', Progress 1 3 (JStr ''ls''), Run (JStr ''ls''),
            Stored ''list files'' plan3, Progress 2 3 (JStr ''false''), Run (JStr ''false'')]\<rparr>)"
  using execute_stops_at_failure [of
      "[(''steps'', JArr [JStr ''ls'', JStr ''false'', JStr ''echo done'']),
        (''description'', JStr ''list, fail, report''),
        (''estimated_time'', JStr ''1s''), (''reversible'', JBool True)]"
      "JStr ''ls''" "JStr ''false''" "JStr ''echo done''" chat_world "''a.txt''" "[]"
      "''exit status 1''" "[Completed [] []]" "''list files''"]
  by (simp add: plan3_def chat_world_def)

section \<open>What a stage adds to the trace\<close>

lemma bind_assoc: "bind (bind m f) g = bind m (\<lambda>x. bind (f x) g)"
  by (auto simp: bind_def fun_eq_iff split: prod.splits sum.splits)

lemma process_request_split:
  "process_request L user_input = bind (planning L user_input) (after_planning L user_input)"
  unfolding process_request_def planning_def after_planning_def [abs_def] gate_and_run_def
    run_plan_def bind_assoc ..

named_theorems emits_intros

lemma emits_ret [emits_intros]: "emits P (ret x)"
  by (simp add: emits_def ret_def)

lemma emits_raise [emits_intros]: "emits P (raise e)"
  by (simp add: emits_def raise_def)

lemma emits_lift [emits_intros]: "emits P (lift r)"
  by (simp add: emits_def lift_def)

lemma emits_read [emits_intros]: "emits P (\<lambda>w. (f w, w))"
  by (simp add: emits_def)

lemma emits_emit [emits_intros]: "P e \<Longrightarrow> emits P (emit e)"
  by (simp add: emits_def emit_def)

lemma emits_bind [emits_intros]:
  assumes "emits P m" and "\<And>x. emits P (f x)"
  shows "emits P (bind m f)"
  unfolding emits_def
proof
  fix w
  obtain r w1 where m: "m w = (r, w1)" by (cases "m w")
  obtain evs where e1: "trace w1 = trace w @ evs" "list_all P evs"
    using assms(1) m unfolding emits_def by (metis snd_conv)
  show "\<exists>evs. trace (snd (bind m f w)) = trace w @ evs \<and> list_all P evs"
  proof (cases r)
    case (Inl e)
    then show ?thesis using m e1 by (simp add: bind_def)
  next
    case (Inr x)
    obtain evs' where e2: "trace (snd (f x w1)) = trace w1 @ evs'" "list_all P evs'"
      using assms(2) [of x] unfolding emits_def by blast
    have "trace (snd (bind m f w)) = trace w @ (evs @ evs')"
      using m Inr e1 e2 by (simp add: bind_def)
    then show ?thesis using e1 e2 by (metis list_all_append)
  qed
qed

lemma emits_if [emits_intros]: "emits P a \<Longrightarrow> emits P b \<Longrightarrow> emits P (if c then a else b)"
  by simp

lemma emits_invoke [emits_intros]: "P Invoke \<Longrightarrow> emits P invoke"
  by (auto simp: emits_def invoke_def split: list.splits)

lemma emits_search [emits_intros]: "P Search \<Longrightarrow> emits P search"
  by (simp add: search_def emits_emit)

lemma emits_run [emits_intros]: "P (Run cmd) \<Longrightarrow> emits P (run cmd)"
  by (auto simp: emits_def run_def split: list.splits)

lemma emits_log_stage [emits_intros]: "P (Logged stage data) \<Longrightarrow> emits P (log_stage stage data)"
  by (auto simp: emits_def log_stage_def split: json.splits)

lemma emits_add_to_kb [emits_intros]: "P (Stored q plan) \<Longrightarrow> emits P (add_to_kb q plan)"
  by (auto simp: emits_def add_to_kb_def split: sum.splits json.splits)

lemma ask_trace:
  "P Ask \<Longrightarrow> \<exists>evs. trace (snd (ask ls w)) = trace w @ evs \<and> list_all P evs"
proof (induction ls arbitrary: w)
  case Nil
  then show ?case by simp
next
  case (Cons l ls)
  obtain evs where "trace (snd (ask ls (w\<lparr>stdin := ls, trace := trace w @ [Ask]\<rparr>))) =
      (trace w @ [Ask]) @ evs" "list_all P evs"
    using Cons.IH [OF Cons.prems, of "w\<lparr>stdin := ls, trace := trace w @ [Ask]\<rparr>"] by auto
  then have "trace (snd (ask ls (w\<lparr>stdin := ls, trace := trace w @ [Ask]\<rparr>))) =
      trace w @ (Ask # evs) \<and> list_all P (Ask # evs)"
    using Cons.prems by simp
  then show ?case using Cons.prems by (auto intro: exI [of _ "[Ask]"])
qed

lemma emits_ask [emits_intros]: "P Ask \<Longrightarrow> emits P (\<lambda>w. ask (stdin w) w)"
  unfolding emits_def using ask_trace by blast

lemma emits_analyze:
  "P (Analyze u) \<Longrightarrow> P Invoke \<Longrightarrow> P Search \<Longrightarrow> emits P (analyze L u)"
  by (auto simp: analyze_def intro!: emits_intros)

lemma emits_generate_plan:
  "P Invoke \<Longrightarrow> P Search \<Longrightarrow> emits P (generate_plan L c ctx)"
  by (auto simp: generate_plan_def intro!: emits_intros)

lemma emits_analyze_plan:
  "P (AnalyzePlan plan) \<Longrightarrow> P Invoke \<Longrightarrow> emits P (analyze_plan L plan)"
  by (auto simp: analyze_plan_def intro!: emits_intros)

lemma emits_request_user_permission:
  "P (RequestPermission plan analysis) \<Longrightarrow> P Ask \<Longrightarrow>
   emits P (request_user_permission plan analysis)"
  by (auto simp: request_user_permission_def intro!: emits_intros)

lemma emits_exec_loop:
  assumes "\<And>i n c. P (Progress i n c)" "\<And>c. P (Run c)" "P (Stored q plan)"
  shows "emits P (exec_loop plan q steps n idx results cmds)"
proof (induction cmds arbitrary: idx results)
  case Nil
  then show ?case by (simp add: emits_ret)
next
  case (Cons cmd cmds)
  show ?case
    by (auto simp: assms Cons.IH intro!: emits_intros split: proc.splits)
qed

lemma emits_execute:
  assumes "P (Execute plan q)" "\<And>i n c. P (Progress i n c)" "\<And>c. P (Run c)" "P (Stored q plan)"
  shows "emits P (execute plan q)"
  by (auto simp: execute_def assms intro!: emits_intros emits_exec_loop)

lemma emits_summary:
  "(\<And>s. P (Print s)) \<Longrightarrow> (\<And>s. P (Summary s)) \<Longrightarrow> emits P (summary execution)"
  by (auto simp: summary_def intro!: emits_intros)

lemma emits_run_plan:
  assumes "\<And>s. P (Print s)" "\<And>s. P (Summary s)" "\<And>s d. P (Logged s d)"
    "P (Execute plan q)" "\<And>i n c. P (Progress i n c)" "\<And>c. P (Run c)" "P (Stored q plan)"
  shows "emits P (run_plan q plan)"
  by (auto simp: run_plan_def assms intro!: emits_intros emits_execute emits_summary)

lemma emits_filter:
  assumes "emits P m" and "\<And>e. P e \<Longrightarrow> \<not> Q e"
  shows "filter Q (trace (snd (m w))) = filter Q (trace w)"
proof -
  obtain evs where e: "trace (snd (m w)) = trace w @ evs" "list_all P evs"
    using assms(1) unfolding emits_def by blast
  have "filter Q evs = []"
    using e(2) assms(2) by (auto simp: list_all_iff filter_empty_conv)
  then show ?thesis using e(1) by simp
qed

lemma emits_plan_contexts:
  assumes "emits (\<lambda>e. plan_context e = []) m"
  shows "plan_contexts (trace (snd (m w))) = plan_contexts (trace w)"
proof -
  obtain evs where e: "trace (snd (m w)) = trace w @ evs" "list_all (\<lambda>e. plan_context e = []) evs"
    using assms unfolding emits_def by blast
  have "concat (map plan_context evs) = []"
    using e(2) by (auto simp: list_all_iff)
  then show ?thesis using e(1) by (simp add: plan_contexts_def)
qed

section \<open>Planning is entered once\<close>

lemma quiet_run_plan: "emits (\<lambda>e. plan_context e = []) (run_plan u plan)"
  by (rule emits_run_plan) simp_all

lemma quiet_after_planning: "emits (\<lambda>e. plan_context e = []) (after_planning L u plan)"
  by (auto simp: after_planning_def gate_and_run_def
      intro!: emits_intros emits_analyze_plan emits_request_user_permission quiet_run_plan)

lemma find_similar_plan_trace:
  "find_similar_plan L u t (w\<lparr>trace := tr\<rparr>) = find_similar_plan L u t w"
  by (simp add: find_similar_plan_def load_kb_def)

lemma create_plan_contexts:
  "plan_contexts (trace (snd (create_plan L u c ctx w))) = plan_contexts (trace w) @ [ctx]"
proof -
  let ?rest = "bind (\<lambda>w. (find_similar_plan L u (3 / 5) w, w)) (\<lambda>existing_plan.
     case existing_plan of
       None \<Rightarrow> generate_plan L c ctx
     | Some p \<Rightarrow>
         if py_truthy p
         then bind (emit (Print ''Retrieved existing plan from KB'')) (\<lambda>_. ret p)
         else generate_plan L c ctx)"
  have q: "emits (\<lambda>e. plan_context e = []) ?rest"
    by (auto intro!: emits_intros emits_generate_plan split: option.splits)
  have "create_plan L u c ctx w = ?rest (w\<lparr>trace := trace w @ [CreatePlan u c ctx]\<rparr>)"
    by (simp add: create_plan_def bind_emit)
  then show ?thesis
    using emits_plan_contexts [OF q, of "w\<lparr>trace := trace w @ [CreatePlan u c ctx]\<rparr>"]
    by (simp add: plan_contexts_def)
qed

text \<open>
  The \<^verbatim>\<open>error_context\<close> that \<^verbatim>\<open>execute\<close> builds, and the branch of \<^verbatim>\<open>create_plan\<close> that reads
  it, are never joined: in every run \<^verbatim>\<open>process_request\<close> calls \<^verbatim>\<open>create_plan\<close> at most once,
  with no \<^verbatim>\<open>error_context\<close> (\<open>None\<close>), and the execution stage that follows (execute, log,
  summary) makes no \<^verbatim>\<open>create_plan\<close> call, whatever the outcome of the execution.
\<close>

lemma process_request_plans_once:
  "(plan_contexts (trace (snd (process_request L u w))) = plan_contexts (trace w) \<or>
    plan_contexts (trace (snd (process_request L u w))) = plan_contexts (trace w) @ [None]) \<and>
   plan_contexts (trace (snd (run_plan u plan w'))) = plan_contexts (trace w')"
proof
  let ?pre = "bind (emit (Print ''Analyzing request...'')) (\<lambda>_.
     bind (analyze L u) (\<lambda>comprehension.
     bind (log_stage ''comprehension'' comprehension) (\<lambda>_.
     bind (emit (Print ''Generating plan...'')) (\<lambda>_. ret comprehension))))"
  have split: "process_request L u =
      bind ?pre (\<lambda>c. bind (create_plan L u c None) (after_planning L u))"
    by (simp add: process_request_split planning_def bind_assoc bind_simps)
  have qpre: "emits (\<lambda>e. plan_context e = []) ?pre"
    by (auto intro!: emits_intros emits_analyze)
  obtain r1 w1 where pre: "?pre w = (r1, w1)" by (cases "?pre w")
  have c1: "plan_contexts (trace w1) = plan_contexts (trace w)"
    using emits_plan_contexts [OF qpre, of w] pre by simp
  show "plan_contexts (trace (snd (process_request L u w))) = plan_contexts (trace w) \<or>
    plan_contexts (trace (snd (process_request L u w))) = plan_contexts (trace w) @ [None]"
  proof (cases r1)
    case (Inl e)
    then have "process_request L u w = (Inl e, w1)"
      using pre by (simp add: split bind_def)
    then show ?thesis using c1 by simp
  next
    case (Inr c)
    obtain r2 w2 where cp: "create_plan L u c None w1 = (r2, w2)"
      by (cases "create_plan L u c None w1")
    have c2: "plan_contexts (trace w2) = plan_contexts (trace w) @ [None]"
      using create_plan_contexts [of L u c None w1] cp c1 by simp
    show ?thesis
    proof (cases r2)
      case (Inl e)
      then have "process_request L u w = (Inl e, w2)"
        using pre Inr cp by (simp add: split bind_def)
      then show ?thesis using c2 by simp
    next
      case (Inr plan)
      then have "process_request L u w = after_planning L u plan w2"
        using pre \<open>r1 = Inr c\<close> cp by (simp add: split bind_def)
      then show ?thesis
        using emits_plan_contexts [OF quiet_after_planning, of L u plan w2] c2 by simp
    qed
  qed
next
  show "plan_contexts (trace (snd (run_plan u plan w'))) = plan_contexts (trace w')"
    by (rule emits_plan_contexts [OF quiet_run_plan])
qed

text \<open>
  Claim C1 asks that an execution outcome with status failed or timeout sends the request
  back to planning, with the outcome's \<^verbatim>\<open>error_context\<close> as argument of a further
  \<^verbatim>\<open>create_plan\<close> call. The program does not do it. In the run below the plan has three
  steps, the second exits with a non-zero status, and \<^verbatim>\<open>execute\<close> returns status failed with
  the failed command and the one trailing step in its \<^verbatim>\<open>error_context\<close>; that outcome is
  logged, and \<^verbatim>\<open>process_request\<close> returns with the single \<^verbatim>\<open>create_plan\<close> call it started
  with, whose \<^verbatim>\<open>error_context\<close> is \<open>None\<close>.
\<close>

theorem failed_run_is_not_replanned:
  "fst (process_request (table_lib []) ''list files'' hit_world) = Inr () \<and>
   plan_contexts (trace (snd (process_request (table_lib []) ''list files'' hit_world))) = [None] \<and>
   Logged ''execution''
     (JObj [(''status'', JStr ''failed''),
            (''results'', JArr [step_result (JStr ''ls'') ''a.txt'' []]),
            (''error_context'',
               JObj [(''command'', JStr ''false''), (''error'', JStr ''exit status 1''),
                     (''remaining_steps'', JArr [JStr ''echo done''])])])
     \<in> set (trace (snd (process_request (table_lib []) ''list files'' hit_world)))"
  by code_simp

section \<open>Cache hits\<close>

lemma bind_run_empty:
  "shell w = [] \<Longrightarrow> bind (run cmd) f w = f OtherFailure (w\<lparr>trace := trace w @ [Run cmd]\<rparr>)"
  by (simp add: bind_def run_def)

lemma exec_loop_kb_file:
  "appendable (kb_file w) \<Longrightarrow>
   kb_file (snd (exec_loop plan u steps n idx results cmds w)) =
     (if takeWhile completed (take (length cmds) (shell w)) = [] then kb_file w
      else Holds (JArr (records_of (kb_file w) @
             replicate (length (takeWhile completed (take (length cmds) (shell w))))
               (kb_entry u plan))))"
proof (induction cmds arbitrary: idx results w)
  case Nil
  then show ?case by (simp add: ret_def)
next
  case (Cons cmd cmds)
  let ?w1 = "w\<lparr>trace := trace w @ [Progress (idx + 1) n cmd]\<rparr>"
  show ?case
  proof (cases "shell w")
    case Nil
    then show ?thesis
      by (simp add: bind_emit bind_run_empty raise_def)
  next
    case (Cons p ps)
    let ?w2 = "?w1\<lparr>shell := ps, trace := trace ?w1 @ [Run cmd]\<rparr>"
    show ?thesis
    proof (cases p)
      case (Completed out err)
      let ?w3 = "?w2\<lparr>kb_file := Holds (JArr (records_of (kb_file w) @ [kb_entry u plan])),
        trace := trace ?w2 @ [Stored u plan]\<rparr>"
      have step: "exec_loop plan u steps n idx results (cmd # cmds) w =
          exec_loop plan u steps n (idx + 1) (results @ [step_result cmd out err]) cmds ?w3"
        using Cons Completed Cons.prems
        by (simp add: bind_emit bind_run bind_add_to_kb)
      have "appendable (kb_file ?w3)" by simp
      from Cons.IH [OF this, of "idx + 1" "results @ [step_result cmd out err]"]
      show ?thesis
        using Cons Completed
        by (simp add: step replicate_app_Cons_same del: exec_loop.simps cong: if_cong)
    next
      case (CalledProcessError msg)
      then show ?thesis
        using Cons
        by (cases "py_slice_from steps (idx + 1)")
          (simp_all add: bind_emit bind_run bind_simps raise_def ret_def)
    next
      case TimeoutExpired
      then show ?thesis
        using Cons
        by (cases "py_slice_from steps (idx + 1)")
          (simp_all add: bind_emit bind_run bind_simps raise_def ret_def)
    next
      case OtherFailure
      then show ?thesis
        using Cons by (simp add: bind_emit bind_run raise_def)
    qed
  qed
qed

text \<open>
  Claim C7, as amended. When the look-up for the request hits, \<^verbatim>\<open>create_plan\<close> returns the
  cached plan having only printed a line: no store call, no LLM call and no search; the
  knowledge base is untouched by the planning stage. The execution stage, however, stores
  \<open>(request, plan)\<close> once for every step that succeeds, wherever the plan came from: when
  \<^verbatim>\<open>execute\<close> is done, the knowledge base has grown by as many copies of the pair as there
  are steps that completed, that is outcomes with exit status 0 before the first other
  outcome among the steps of the plan.
\<close>

theorem cache_hit_skips_generation:
  "(find_similar_plan L u (3 / 5) w = Inr (Some p) \<and> py_truthy p \<longrightarrow>
      create_plan L u c ctx w =
        (Inr p, w\<lparr>trace := trace w @ [CreatePlan u c ctx,
                                         Print ''Retrieved existing plan from KB'']\<rparr>)) \<and>
   (py_get (JObj kvs) ''steps'' (JArr []) = Inr steps \<and> py_iter steps = Inr cmds \<and>
    appendable (kb_file w) \<longrightarrow>
      kb_file (snd (execute (JObj kvs) u w)) =
        (if takeWhile completed (take (length cmds) (shell w)) = [] then kb_file w
         else Holds (JArr (records_of (kb_file w) @
                replicate (length (takeWhile completed (take (length cmds) (shell w))))
                  (kb_entry u (JObj kvs))))))"
proof (intro conjI impI)
  assume "find_similar_plan L u (3 / 5) w = Inr (Some p) \<and> py_truthy p"
  then show "create_plan L u c ctx w =
        (Inr p, w\<lparr>trace := trace w @ [CreatePlan u c ctx,
                                         Print ''Retrieved existing plan from KB'']\<rparr>)"
    by (simp add: create_plan_def bind_emit bind_def emit_def ret_def find_similar_plan_trace)
next
  assume a: "py_get (JObj kvs) ''steps'' (JArr []) = Inr steps \<and> py_iter steps = Inr cmds \<and>
    appendable (kb_file w)"
  let ?w = "w\<lparr>trace := trace w @ [Execute (JObj kvs) u]\<rparr>"
  have "execute (JObj kvs) u w = exec_loop (JObj kvs) u steps (length cmds) 0 [] cmds ?w"
    using a by (simp add: execute_def bind_emit bind_simps del: py_get.simps)
  then show "kb_file (snd (execute (JObj kvs) u w)) =
        (if takeWhile completed (take (length cmds) (shell w)) = [] then kb_file w
         else Holds (JArr (records_of (kb_file w) @
                replicate (length (takeWhile completed (take (length cmds) (shell w))))
                  (kb_entry u (JObj kvs)))))"
    using a exec_loop_kb_file [of ?w "JObj kvs" u steps "length cmds" 0 "[]" cmds] by simp
qed

theorem cache_hit_skips_generation_witness:
  "find_similar_plan (table_lib []) ''show date'' (3 / 5) warm_world = Inr (Some plan2) \<and>
   py_truthy plan2 \<and>
   create_plan (table_lib []) ''show date'' (JObj []) None warm_world =
     (Inr plan2, warm_world\<lparr>trace := [CreatePlan ''show date'' (JObj []) None,
                                       Print ''Retrieved existing plan from KB'']\<rparr>) \<and>
   shell warm_world = [Completed ''Mon'' [], Completed ''up 1 day'' []] \<and>
   appendable (kb_file warm_world) \<and>
   kb_file (snd (execute plan2 ''show date'' warm_world)) =
     Holds (JArr [kb_entry ''show date'' plan2, kb_entry ''show date'' plan2,
                  kb_entry ''show date'' plan2])"
proof -
  have f: "find_similar_plan (table_lib []) ''show date'' (3 / 5) warm_world = Inr (Some plan2)"
    by code_simp
  have t: "py_truthy plan2"
    by (simp add: plan2_def)
  have s: "shell warm_world = [Completed ''Mon'' [], Completed ''up 1 day'' []]"
    "appendable (kb_file warm_world)" "trace warm_world = []"
    "kb_file warm_world = Holds (JArr [kb_entry ''show date'' plan2])"
    by (simp_all add: warm_world_def)
  have p: "plan2 = JObj [(''steps'', JArr [JStr ''date'', JStr ''uptime'']),
                 (''description'', JStr ''date and uptime'')]"
    by (simp add: plan2_def)
  have g: "py_get plan2 ''steps'' (JArr []) = Inr (JArr [JStr ''date'', JStr ''uptime''])"
    by (simp add: plan2_def)
  show ?thesis
    using f t s g
      cache_hit_skips_generation [of "table_lib []" "''show date''" warm_world plan2 "JObj []" None
        "[(''steps'', JArr [JStr ''date'', JStr ''uptime'']),
          (''description'', JStr ''date and uptime'')]"
        "JArr [JStr ''date'', JStr ''uptime'']" "[JStr ''date'', JStr ''uptime'']", folded p]
    by (simp add: numeral_2_eq_2)
qed

text \<open>
  Claim C7 as stated fails: the request below is served from the knowledge base, and by
  the time it has been processed the knowledge base holds the pair a second time.
\<close>

theorem hit_plan_stored_again_counterexample:
  "kb_file hit_world = Holds (JArr [kb_entry ''list files'' plan3]) \<and>
   find_similar_plan (table_lib []) ''list files'' (3 / 5) hit_world = Inr (Some plan3) \<and>
   kb_file (snd (process_request (table_lib []) ''list files'' hit_world)) =
     Holds (JArr [kb_entry ''list files'' plan3, kb_entry ''list files'' plan3])"
  by code_simp

section \<open>Empty plans\<close>

lemma log_stage_appendable: "log_stage s d w = (Inr x, w') \<Longrightarrow> loggable (log_file w')"
  by (auto simp: log_stage_def split: json.splits)

lemma create_plan_log_file: "log_file (snd (create_plan L u c ctx w)) = log_file w"
  by (auto simp: create_plan_def generate_plan_def bind_def emit_def invoke_def search_def
      lift_def ret_def split: option.splits sum.splits prod.splits list.splits)

lemma planning_log_file:
  assumes "planning L u w = (Inr p, w1)"
  shows "loggable (log_file w1)"
proof -
  obtain c wa wb where l: "log_stage ''comprehension'' c wa = (Inr (), wb)"
    and cp: "create_plan L u c None (wb\<lparr>trace := trace wb @ [Print ''Generating plan...'']\<rparr>) =
      (Inr p, w1)"
    using assms
    by (auto simp: planning_def bind_def emit_def split: prod.splits sum.splits)
  have "log_file w1 = log_file wb"
    using create_plan_log_file [of L u c None "wb\<lparr>trace := trace wb @ [Print ''Generating plan...'']\<rparr>"]
      cp by simp
  then show ?thesis using log_stage_appendable [OF l] by simp
qed

text \<open>
  Claim C5. When planning returns a plan (a dictionary) whose steps are empty, or falsy,
  or missing, \<^verbatim>\<open>process_request\<close> appends the \<open>plan_creation\<close> record to the audit log, prints
  that no plan could be created and returns: the world it leaves differs from the one
  planning left in that record and that line only, so the LLM, standard input, the shell and
  the knowledge base are not touched again: no examination, no gate, no execution, no
  second plan.
\<close>

theorem empty_plan_ends_request:
  "planning L u w = (Inr (JObj kvs), w1) \<Longrightarrow>
   \<not> py_truthy (case map_of kvs ''steps'' of None \<Rightarrow> JNull | Some steps \<Rightarrow> steps) \<Longrightarrow>
   process_request L u w =
     (Inr (),
      w1\<lparr>log_file :=
           Holds (JArr (records_of (log_file w1) @ [log_record ''plan_creation'' (JObj kvs)])),
         trace := trace w1 @ [Logged ''plan_creation'' (JObj kvs),
                              Print ''No plan could be created.'']\<rparr>)"
proof -
  assume p: "planning L u w = (Inr (JObj kvs), w1)"
    and s: "\<not> py_truthy (case map_of kvs ''steps'' of None \<Rightarrow> JNull | Some steps \<Rightarrow> steps)"
  have "process_request L u w = after_planning L u (JObj kvs) w1"
    using p by (simp add: process_request_split bind_def)
  also have "\<dots> = (Inr (),
      w1\<lparr>log_file :=
           Holds (JArr (records_of (log_file w1) @ [log_record ''plan_creation'' (JObj kvs)])),
         trace := trace w1 @ [Logged ''plan_creation'' (JObj kvs),
                              Print ''No plan could be created.'']\<rparr>)"
    using s log_appends [OF planning_log_file [OF p], of "''plan_creation''" "JObj kvs"]
    by (simp add: after_planning_def bind_def lift_def emit_def)
  finally show ?thesis .
qed

theorem empty_plan_ends_request_witness:
  "planning (table_lib []) ''list files'' miss_world =
     (Inr default_plan,
      miss_world\<lparr>llm := [''unused''],
        log_file := Holds (JArr [log_record ''comprehension'' (default_comprehension ''list files'')]),
        trace := [Print ''Analyzing request...'', Analyze ''list files'', Invoke, Invoke,
                  Logged ''comprehension'' (default_comprehension ''list files''),
                  Print ''Generating plan...'',
                  CreatePlan ''list files'' (default_comprehension ''list files'') None,
                  Invoke]\<rparr>) \<and>
   \<not> py_truthy (JArr []) \<and>
   process_request (table_lib []) ''list files'' miss_world =
     (Inr (),
      miss_world\<lparr>llm := [''unused''],
        log_file := Holds (JArr [log_record ''comprehension'' (default_comprehension ''list files''),
                                 log_record ''plan_creation'' default_plan]),
        trace := [Print ''Analyzing request...'', Analyze ''list files'', Invoke, Invoke,
                  Logged ''comprehension'' (default_comprehension ''list files''),
                  Print ''Generating plan...'',
                  CreatePlan ''list files'' (default_comprehension ''list files'') None,
                  Invoke,
                  Logged ''plan_creation'' default_plan,
                  Print ''No plan could be created.'']\<rparr>)"
proof -
  let ?w1 = "miss_world\<lparr>llm := [''unused''],
        log_file := Holds (JArr [log_record ''comprehension'' (default_comprehension ''list files'')]),
        trace := [Print ''Analyzing request...'', Analyze ''list files'', Invoke, Invoke,
                  Logged ''comprehension'' (default_comprehension ''list files''),
                  Print ''Generating plan...'',
                  CreatePlan ''list files'' (default_comprehension ''list files'') None,
                  Invoke]\<rparr>"
  have p: "planning (table_lib []) ''list files'' miss_world = (Inr default_plan, ?w1)"
    by code_simp
  have d: "default_plan = JObj [(''steps'', JArr []), (''description'', JStr ''Failed to create plan''),
           (''estimated_time'', JStr ''unknown''), (''reversible'', JBool False)]"
    by (simp add: default_plan_def)
  show ?thesis
    using p empty_plan_ends_request [of "table_lib []" "''list files''" miss_world
        "[(''steps'', JArr []), (''description'', JStr ''Failed to create plan''),
           (''estimated_time'', JStr ''unknown''), (''reversible'', JBool False)]" ?w1, folded d]
    by simp
qed

section \<open>Assessments that ask for no permission\<close>

lemma after_examination:
  assumes "examination L plan w1 = (Inr (steps, analysis), w3)" and "py_truthy steps"
  shows "after_planning L u plan w1 = gate_and_run u plan analysis w3"
  using assms
  by (auto simp: examination_def after_planning_def bind_def lift_def emit_def ret_def
      split: prod.splits sum.splits)

lemma no_gate_run_plan: "emits (\<lambda>e. \<not> gate_event e) (run_plan u plan)"
  by (rule emits_run_plan) simp_all

lemma run_plan_enters_execute: "Execute plan u \<in> set (trace (snd (run_plan u plan w)))"
proof -
  let ?body = "bind (bind (lift (py_get plan ''steps'' (JArr []))) (\<lambda>steps.
       bind (lift (py_iter steps)) (\<lambda>cmds.
       exec_loop plan u steps (length cmds) 0 [] cmds)))
     (\<lambda>execution. bind (log_stage ''execution'' execution) (\<lambda>_.
       bind (summary execution) (\<lambda>_. ret ())))"
  let ?w = "w\<lparr>trace := trace w @ [Print ''Executing plan...'', Execute plan u]\<rparr>"
  have "run_plan u plan w = ?body ?w"
    by (simp add: run_plan_def execute_def bind_assoc bind_emit)
  moreover have "emits (\<lambda>_. True) ?body"
    by (auto intro!: emits_intros emits_exec_loop emits_summary)
  then obtain evs where "trace (snd (?body ?w)) = trace ?w @ evs"
    unfolding emits_def by blast
  ultimately show ?thesis by simp
qed

text \<open>
  Claim C9. When the assessment's \<^verbatim>\<open>requires_permission\<close> is false (or any falsy value),
  \<^verbatim>\<open>process_request\<close> goes from the logged analysis straight to the execution stage,
  whatever the recommendation, \<open>deny\<close> included: from that point on the trace gains no
  event of the gate (no entry into \<^verbatim>\<open>request_user_permission\<close>, no prompt) and it gains the
  entry into \<^verbatim>\<open>execute\<close>. So the gate, and with it its \<open>deny\<close> branch, is reached only when
  \<^verbatim>\<open>requires_permission\<close> is truthy or absent.
\<close>

theorem no_permission_no_gate:
  "planning L u w = (Inr plan, w1) \<Longrightarrow>
   examination L plan w1 = (Inr (steps, analysis), w3) \<Longrightarrow>
   py_truthy steps \<Longrightarrow>
   py_get analysis ''requires_permission'' (JBool True) = Inr requires_permission \<Longrightarrow>
   \<not> py_truthy requires_permission \<Longrightarrow>
   process_request L u w = run_plan u plan w3 \<and>
   filter gate_event (trace (snd (process_request L u w))) = filter gate_event (trace w3) \<and>
   Execute plan u \<in> set (trace (snd (process_request L u w)))"
proof -
  assume p: "planning L u w = (Inr plan, w1)"
    and e: "examination L plan w1 = (Inr (steps, analysis), w3)"
    and s: "py_truthy steps"
    and r: "py_get analysis ''requires_permission'' (JBool True) = Inr requires_permission"
    and n: "\<not> py_truthy requires_permission"
  have "process_request L u w = after_planning L u plan w1"
    using p by (simp add: process_request_split bind_def)
  also have "\<dots> = gate_and_run u plan analysis w3"
    by (rule after_examination [OF e s])
  also have "\<dots> = run_plan u plan w3"
    using r n by (simp add: gate_and_run_def bind_simps)
  finally have eq: "process_request L u w = run_plan u plan w3" .
  show ?thesis
    using eq emits_filter [OF no_gate_run_plan, of gate_event u plan w3]
      run_plan_enters_execute [of plan u w3]
    by simp
qed

theorem no_permission_no_gate_witness:
  "fst (planning deny_lib ''list files'' deny_world) = Inr plan1 \<and>
   fst (examination deny_lib plan1 (snd (planning deny_lib ''list files'' deny_world))) =
     Inr (JArr [JStr ''ls''], deny_analysis) \<and>
   py_truthy (JArr [JStr ''ls'']) \<and>
   py_get deny_analysis ''requires_permission'' (JBool True) = Inr (JBool False) \<and>
   py_index deny_analysis ''recommendation'' = Inr (JStr ''deny'') \<and>
   filter gate_event (trace (snd (process_request deny_lib ''list files'' deny_world))) = [] \<and>
   Execute plan1 ''list files''
     \<in> set (trace (snd (process_request deny_lib ''list files'' deny_world)))"
proof -
  let ?w1 = "snd (planning deny_lib ''list files'' deny_world)"
  let ?w3 = "snd (examination deny_lib plan1 ?w1)"
  have p: "fst (planning deny_lib ''list files'' deny_world) = Inr plan1"
    by code_simp
  have e: "fst (examination deny_lib plan1 ?w1) = Inr (JArr [JStr ''ls''], deny_analysis)"
    by code_simp
  have g: "filter gate_event (trace ?w3) = []"
    by code_simp
  have r: "py_get deny_analysis ''requires_permission'' (JBool True) = Inr (JBool False)"
    "py_index deny_analysis ''recommendation'' = Inr (JStr ''deny'')"
    by (simp_all add: deny_analysis_def)
  have p': "planning deny_lib ''list files'' deny_world = (Inr plan1, ?w1)"
    using p by (metis prod.collapse)
  have e': "examination deny_lib plan1 ?w1 = (Inr (JArr [JStr ''ls''], deny_analysis), ?w3)"
    using e by (metis prod.collapse)
  have t: "py_truthy (JArr [JStr ''ls''])" "\<not> py_truthy (JBool False)"
    by simp_all
  show ?thesis
    using p e g r t
      no_permission_no_gate [OF p' e' t(1) r(1) t(2), THEN conjunct2]
    by simp
qed

section \<open>Looking up a stored query\<close>

lemma traverse_queries:
  "traverse (\<lambda>item. py_index item ''query'') (map (\<lambda>e. kb_entry (fst e) (snd e)) es) =
   Inr (map (\<lambda>e. JStr (fst e)) es)"
  by (induction es) (simp_all add: kb_entry_def)

lemma traverse_as_str: "traverse as_str (map (\<lambda>e. JStr (fst e)) es) = Inr (map fst es)"
  by (induction es) simp_all

lemma first_with_query_entries:
  "first_with_query m (map (\<lambda>e. kb_entry (fst e) (snd e)) es) = Inr (map_of es m)"
  by (induction es) (auto simp: kb_entry_def)

lemma get_close_matches_exact:
  assumes "q \<in> set qs" and "ratio L q q = 1" and "t \<le> 1"
    and "\<forall>x \<in> set qs. ratio L x q \<le> 1 \<and> (ratio L x q = 1 \<longrightarrow> x = q)"
  shows "get_close_matches L q qs t = [q]"
proof -
  let ?result = "[(ratio L x q, x). x \<leftarrow> qs, t \<le> ratio L x q]"
  have mem: "(1, q) \<in> set ?result"
    using assms(1-3) by auto
  have le: "sx \<le> (1, q)" if sx: "sx \<in> set ?result" for sx
  proof -
    obtain x where x: "x \<in> set qs" "sx = (ratio L x q, x)"
      using sx by (auto split: if_splits)
    then have "ratio L x q < 1 \<or> (ratio L x q = 1 \<and> x = q)"
      using assms(4) by (auto simp: less_le)
    then show ?thesis using x by (auto simp: less_eq_prod_def)
  qed
  have "Max (set ?result) = (1, q)"
    using mem le by (intro Max_eqI) auto
  moreover have "?result \<noteq> []"
    using mem by auto
  ultimately show ?thesis
    by (simp add: get_close_matches_def Let_def)
qed

text \<open>
  Claim C6, as amended. For a knowledge base of entries \<open>es\<close> (query strings with their
  plans, in the order they were stored) and a query \<open>q\<close> among them, the look-up of \<open>q\<close>
  returns the plan of the first entry stored under \<open>q\<close> (\<open>map_of es q\<close>): the pair \<open>(q, p)\<close>
  is found when no earlier entry has the same query. What is used of \<^verbatim>\<open>difflib\<close> is that the
  ratio of \<open>q\<close> against itself is 1, which reaches the threshold 0.6, and that no other
  stored query reaches 1 against \<open>q\<close>.
\<close>

theorem lookup_returns_first_stored:
  "kb_file w = Holds (JArr (map (\<lambda>e. kb_entry (fst e) (snd e)) es)) \<Longrightarrow>
   map_of es q = Some p \<Longrightarrow>
   ratio L q q = 1 \<Longrightarrow>
   \<forall>x \<in> fst ` set es. ratio L x q \<le> 1 \<and> (ratio L x q = 1 \<longrightarrow> x = q) \<Longrightarrow>
   find_similar_plan L q (3 / 5) w = Inr (Some p)"
proof -
  assume kb: "kb_file w = Holds (JArr (map (\<lambda>e. kb_entry (fst e) (snd e)) es))"
    and p: "map_of es q = Some p"
    and r: "ratio L q q = 1"
    and u: "\<forall>x \<in> fst ` set es. ratio L x q \<le> 1 \<and> (ratio L x q = 1 \<longrightarrow> x = q)"
  have q: "q \<in> set (map fst es)"
    using p by (metis map_of_eq_None_iff option.distinct(1) set_map)
  then have ne: "es \<noteq> []" by auto
  have m: "get_close_matches L q (map fst es) (3 / 5) = [q]"
    using q r u by (intro get_close_matches_exact) auto
  show ?thesis
    using kb ne m p
    by (simp add: find_similar_plan_def load_kb_def traverse_queries traverse_as_str
        first_with_query_entries)
qed

theorem lookup_returns_first_stored_witness:
  "kb_file two_world =
     Holds (JArr [kb_entry ''reboot now'' plan1, kb_entry ''list files'' plan3]) \<and>
   ratio (table_lib []) ''list files'' ''list files'' = 1 \<and>
   ratio (table_lib []) ''reboot now'' ''list files'' = 1 / 5 \<and>
   find_similar_plan (table_lib []) ''list files'' (3 / 5) two_world = Inr (Some plan3)"
proof -
  have k: "kb_file two_world =
      Holds (JArr (map (\<lambda>e. kb_entry (fst e) (snd e))
        [(''reboot now'', plan1), (''list files'', plan3)]))"
    by (simp add: two_world_def)
  have r1: "ratio (table_lib []) ''list files'' ''list files'' = 1"
    by code_simp
  have r2: "ratio (table_lib []) ''reboot now'' ''list files'' = 1 / 5"
    by code_simp
  have m: "map_of [(''reboot now'', plan1), (''list files'', plan3)] ''list files'' = Some plan3"
    by simp
  have u: "\<forall>x \<in> fst ` set [(''reboot now'', plan1), (''list files'', plan3)].
      ratio (table_lib []) x ''list files'' \<le> 1 \<and>
      (ratio (table_lib []) x ''list files'' = 1 \<longrightarrow> x = ''list files'')"
    using r1 r2 by simp
  show ?thesis
    using r1 r2 lookup_returns_first_stored [OF k m r1 u]
    by (simp add: two_world_def)
qed

text \<open>
  Claim C6 as stated fails where a query was stored twice: the pair
  \<open>(list files, plan1)\<close> is stored, and the look-up of its query returns \<open>plan3\<close>, the plan
  of the earlier entry.
\<close>

theorem lookup_duplicate_query_counterexample:
  "kb_file dup_world =
     Holds (JArr [kb_entry ''list files'' plan3, kb_entry ''list files'' plan1]) \<and>
   find_similar_plan (table_lib []) ''list files'' (3 / 5) dup_world = Inr (Some plan3) \<and>
   plan3 \<noteq> plan1"
  by code_simp

end
